theory Spec2Isabelle
  imports Complex_Main "HOL-Library.AList" "HOL-Library.Char_ord" "HOL-Library.List_Lexorder"
begin

section \<open>Reading and Sensor\<close>

text \<open>
  Instants (JavaScript \<open>Date\<close> values) are integers, the milliseconds since the epoch;
  subtracting two dates in the source yields exactly that difference, and every instant
  computed is taken to lie within the range of \<open>Date\<close>. The temperature of a reading
  that the analysis works on is a finite number, held as the real number it is; sensors
  and zones aggregate these exactly.
\<close>

datatype js_number = Finite real | PosInfinity | NegInfinity | NaN

datatype js_value =
  JsUndefined | JsNull | JsBoolean bool | JsNumber js_number | JsString string
  | JsBigInt int | JsSymbol | JsFunction | JsObject

record 't ReadingOf =
  sensorId :: string
  timestamp :: int
  tempF :: 't
  humidityPct :: "real option"
  batteryPct :: "real option"

text \<open>
  The constructor stores whatever number passes its check, so a constructed reading
  carries a \<open>js_number\<close>. The analysis below computes with finite temperatures, which
  are real numbers.
\<close>

type_synonym Reading = "real ReadingOf"

fun typeof :: "js_value \<Rightarrow> string" where
  "typeof JsUndefined = ''undefined''"
| "typeof JsNull = ''object''"
| "typeof (JsBoolean b) = ''boolean''"
| "typeof (JsNumber n) = ''number''"
| "typeof (JsString s) = ''string''"
| "typeof (JsBigInt i) = ''bigint''"
| "typeof JsSymbol = ''symbol''"
| "typeof JsFunction = ''function''"
| "typeof JsObject = ''object''"

fun Number_isNaN :: "js_value \<Rightarrow> bool" where
  "Number_isNaN (JsNumber NaN) = True"
| "Number_isNaN v = False"

fun Number_isFinite :: "js_value \<Rightarrow> bool" where
  "Number_isFinite (JsNumber (Finite x)) = True"
| "Number_isFinite v = False"

text \<open>
  The argument object of \<open>new Reading({...})\<close>. Only \<open>tempF\<close> is inspected, so it is an
  arbitrary JavaScript value; the other fields are stored as they come (an absent
  \<open>humidityPct\<close> or \<open>batteryPct\<close> defaults to \<open>null\<close>, here \<open>None\<close>).
\<close>

record ReadingArgs =
  argSensorId :: string
  argTimestamp :: int
  argTempF :: js_value
  argHumidityPct :: "real option"
  argBatteryPct :: "real option"

datatype error = RequiresNumericTempF js_value

definition Reading_constructor :: "ReadingArgs \<Rightarrow> error + js_number ReadingOf" where
  "Reading_constructor a =
     (if typeof (argTempF a) \<noteq> ''number'' \<or> Number_isNaN (argTempF a)
      then Inl (RequiresNumericTempF (argTempF a))
      else (case argTempF a of
              JsNumber n \<Rightarrow>
                Inr \<lparr>sensorId = argSensorId a, timestamp = argTimestamp a, tempF = n,
                     humidityPct = argHumidityPct a, batteryPct = argBatteryPct a\<rparr>
            | _ \<Rightarrow> Inl (RequiresNumericTempF (argTempF a))))"

text \<open>\<open>Reading.ageMinutes\<close> and \<open>Reading.isStale\<close>; the reference time is explicit.\<close>

definition ageMinutes :: "Reading \<Rightarrow> int \<Rightarrow> real" where
  "ageMinutes r referenceTime = real_of_int (referenceTime - timestamp r) / 60000"

definition isStale :: "Reading \<Rightarrow> real \<Rightarrow> int \<Rightarrow> bool" where
  "isStale r thresholdMinutes referenceTime \<longleftrightarrow> ageMinutes r referenceTime > thresholdMinutes"

record Sensor =
  s_sensorId :: string
  label :: string
  deviceId :: "string option"
  readings :: "Reading list"

text \<open>The constructor: \<open>label || sensorId\<close> takes the id for a missing or empty label.\<close>

definition newSensor :: "string \<Rightarrow> string option \<Rightarrow> string option \<Rightarrow> Sensor" where
  "newSensor sid lbl dev =
     \<lparr>s_sensorId = sid,
      label = (case lbl of None \<Rightarrow> sid | Some l \<Rightarrow> if l = [] then sid else l),
      deviceId = dev, readings = []\<rparr>"

text \<open>
  The deduplicating \<open>filter\<close> of \<open>ingestReadings\<close>: its callback compares element \<open>i\<close>
  with element \<open>i - 1\<close> of the sorted array being filtered (not with the last element
  kept). \<open>dropNear p rs\<close> filters \<open>rs\<close> whose predecessor in that array is \<open>p\<close>.
\<close>

fun dropNear :: "Reading \<Rightarrow> Reading list \<Rightarrow> Reading list" where
  "dropNear p [] = []"
| "dropNear p (r # rs) =
     (if \<bar>timestamp r - timestamp p\<bar> > 1000 then r # dropNear r rs else dropNear r rs)"

fun dedupe :: "Reading list \<Rightarrow> Reading list" where
  "dedupe [] = []"
| "dedupe (r # rs) = r # dropNear r rs"

text \<open>
  \<open>Sensor.ingestReadings\<close>: push the readings of this sensor, sort ascending by timestamp
  (the sort is stable, as \<open>Array.prototype.sort\<close> is), deduplicate.
\<close>

definition pushMatching :: "Sensor \<Rightarrow> Reading list \<Rightarrow> Reading list" where
  "pushMatching s rs = readings s @ filter (\<lambda>r. sensorId r = s_sensorId s) rs"

definition ingestReadings :: "Sensor \<Rightarrow> Reading list \<Rightarrow> Sensor" where
  "ingestReadings s rs =
     s\<lparr>readings := dedupe (sort_key timestamp (pushMatching s rs))\<rparr>"

definition clearReadings :: "Sensor \<Rightarrow> Sensor" where
  "clearReadings s = s\<lparr>readings := []\<rparr>"

definition readingsInWindow :: "Sensor \<Rightarrow> int \<Rightarrow> int \<Rightarrow> Reading list" where
  "readingsInWindow s hours referenceTime =
     (let cutoff = referenceTime - hours * 3600000
      in filter (\<lambda>r. timestamp r \<ge> cutoff) (readings s))"

definition latestReading :: "Sensor \<Rightarrow> Reading option" where
  "latestReading s = (if length (readings s) > 0 then Some (last (readings s)) else None)"

text \<open>
  The accessors read the wall clock (\<open>new Date()\<close>) through \<open>isStale\<close>; it is the
  parameter \<open>now\<close> here.
\<close>

definition sensorCurrentTempF :: "Sensor \<Rightarrow> int \<Rightarrow> real option" where
  "sensorCurrentTempF s now =
     (case latestReading s of
        None \<Rightarrow> None
      | Some r \<Rightarrow> if \<not> isStale r 15 now then Some (tempF r) else None)"

definition sensorCurrentHumidity :: "Sensor \<Rightarrow> int \<Rightarrow> real option" where
  "sensorCurrentHumidity s now =
     (case latestReading s of
        None \<Rightarrow> None
      | Some r \<Rightarrow> if \<not> isStale r 15 now then humidityPct r else None)"

definition sensorCurrentBattery :: "Sensor \<Rightarrow> int \<Rightarrow> real option" where
  "sensorCurrentBattery s now =
     (case latestReading s of
        None \<Rightarrow> None
      | Some r \<Rightarrow> if \<not> isStale r 15 now then batteryPct r else None)"

datatype SensorStatus = Online | Stale | Offline

definition status :: "Sensor \<Rightarrow> int \<Rightarrow> SensorStatus" where
  "status s now =
     (case latestReading s of
        None \<Rightarrow> Offline
      | Some r \<Rightarrow> if isStale r 15 now then Stale else Online)"

section \<open>Zone\<close>

text \<open>The layout hint \<open>svgLayout\<close> is opaque to the analysis and is left out.\<close>

record Zone =
  zoneId :: string
  name :: string
  hvacZone :: "string option"
  adjacentZoneIds :: "string list"
  sensors :: "Sensor list"

definition sensorCount :: "Zone \<Rightarrow> nat" where
  "sensorCount z = length (sensors z)"

datatype CoverageStatus = Covered | Partial | Uncovered

definition coverageStatus :: "Zone \<Rightarrow> int \<Rightarrow> CoverageStatus" where
  "coverageStatus z now =
     (if length (sensors z) = 0 then Uncovered
      else let online = length (filter (\<lambda>s. status s now = Online) (sensors z))
           in if online = 0 then Uncovered
              else if online < length (sensors z) then Partial
              else Covered)"

text \<open>\<open>this._sensors.map(s => s.currentTempF).filter(t => t !== null)\<close>\<close>

definition sensorTemps :: "Zone \<Rightarrow> int \<Rightarrow> real list" where
  "sensorTemps z now = List.map_filter (\<lambda>s. sensorCurrentTempF s now) (sensors z)"

definition currentTempF :: "Zone \<Rightarrow> int \<Rightarrow> real option" where
  "currentTempF z now =
     (let temps = sensorTemps z now
      in if length temps = 0 then None
         else Some (sum_list temps / real (length temps)))"

definition minTempF :: "Zone \<Rightarrow> int \<Rightarrow> real option" where
  "minTempF z now =
     (let temps = sensorTemps z now
      in if length temps > 0 then Some (Min (set temps)) else None)"

definition maxTempF :: "Zone \<Rightarrow> int \<Rightarrow> real option" where
  "maxTempF z now =
     (let temps = sensorTemps z now
      in if length temps > 0 then Some (Max (set temps)) else None)"

definition tempSpreadF :: "Zone \<Rightarrow> int \<Rightarrow> real option" where
  "tempSpreadF z now =
     (case (minTempF z now, maxTempF z now) of
        (Some mn, Some mx) \<Rightarrow> Some (mx - mn)
      | _ \<Rightarrow> None)"

definition currentHumidity :: "Zone \<Rightarrow> int \<Rightarrow> real option" where
  "currentHumidity z now =
     (let vals = List.map_filter (\<lambda>s. sensorCurrentHumidity s now) (sensors z)
      in if length vals = 0 then None
         else Some (sum_list vals / real (length vals)))"

subsection \<open>Bucketed time series\<close>

record Point =
  ptTimestamp :: int
  ptTempF :: real

record SeriesPoint = Point +
  ptSensorCount :: nat

record Bucket =
  temps :: "real list"
  bucketTimestamp :: int

text \<open>
  The key of a reading: \<open>Math.floor(r.timestamp.getTime() / bucketMs) * bucketMs\<close>. On
  integers \<open>div\<close> is the floor of the quotient for a divisor of either sign; a zero
  \<open>bucketMs\<close> (a \<open>NaN\<close> key in the source) is outside this model.
\<close>

definition bucketKey :: "int \<Rightarrow> Reading \<Rightarrow> int" where
  "bucketKey bucketMs r = (timestamp r div bucketMs) * bucketMs"

text \<open>
  One iteration of the bucketing loop. The \<open>Map\<close> is an association list in insertion
  order: a new key goes to the end, an existing key is updated in place.
\<close>

definition bucketPush :: "int \<Rightarrow> (int \<times> Bucket) list \<Rightarrow> Reading \<Rightarrow> (int \<times> Bucket) list" where
  "bucketPush bucketMs buckets r =
     (let key = bucketKey bucketMs r;
          b = (case map_of buckets key of
                 None \<Rightarrow> \<lparr>temps = [], bucketTimestamp = key + bucketMs div 2\<rparr>
               | Some b \<Rightarrow> b)
      in AList.update key (b\<lparr>temps := temps b @ [tempF r]\<rparr>) buckets)"

definition allReadingsInWindow :: "Zone \<Rightarrow> int \<Rightarrow> int \<Rightarrow> Reading list" where
  "allReadingsInWindow z hours referenceTime =
     concat (map (\<lambda>s. readingsInWindow s hours referenceTime) (sensors z))"

definition bucketPoint :: "Bucket \<Rightarrow> SeriesPoint" where
  "bucketPoint b =
     \<lparr>ptTimestamp = bucketTimestamp b,
      ptTempF = sum_list (temps b) / real (length (temps b)),
      ptSensorCount = length (temps b)\<rparr>"

definition getTimeSeries :: "Zone \<Rightarrow> int \<Rightarrow> int \<Rightarrow> int \<Rightarrow> SeriesPoint list" where
  "getTimeSeries z hours bucketMinutes referenceTime =
     (let allReadings = allReadingsInWindow z hours referenceTime
      in if length allReadings = 0 then []
         else let bucketMs = bucketMinutes * 60000;
                  buckets = foldl (bucketPush bucketMs) [] allReadings
              in sort_key ptTimestamp (map (\<lambda>kb. bucketPoint (snd kb)) buckets))"

section \<open>JavaScript numbers\<close>

text \<open>
  The functions of \<open>ThermalAnalysis.js\<close> that round their results, and the uniformity
  score, are sensitive to the rounding of every operation, so their arithmetic is that
  of JavaScript numbers: IEEE 754 binary64, round to nearest, ties to even.
  \<open>Finite x\<close> stands for the finite number of value \<open>x\<close>. The two zeros are one value
  here (a divisor of zero counts as \<open>+0\<close>), and \<open>Math.sqrt\<close> and the power \<open>** 2\<close> are
  taken correctly rounded.
\<close>

definition roundEven :: "real \<Rightarrow> int" where
  "roundEven x =
     (if x - of_int \<lfloor>x\<rfloor> < 1 / 2 then \<lfloor>x\<rfloor>
      else if x - of_int \<lfloor>x\<rfloor> > 1 / 2 then \<lfloor>x\<rfloor> + 1
      else if even \<lfloor>x\<rfloor> then \<lfloor>x\<rfloor> else \<lfloor>x\<rfloor> + 1)"

definition pow2 :: "int \<Rightarrow> real" where
  "pow2 q = (if q \<ge> 0 then 2 ^ nat q else 1 / 2 ^ nat (- q))"

text \<open>
  The exponent \<open>e\<close> with \<open>2 ^ e \<le> a < 2 ^ (e + 1)\<close>, found by halving or doubling at most
  \<open>n\<close> times.
\<close>

fun floorLog2 :: "nat \<Rightarrow> real \<Rightarrow> int" where
  "floorLog2 0 a = 0"
| "floorLog2 (Suc n) a =
     (if a \<ge> 2 then floorLog2 n (a / 2) + 1
      else if a < 1 then floorLog2 n (a * 2) - 1
      else 0)"

text \<open>Below the least normal number the exponent stays at -1022 (gradual underflow).\<close>

definition binaryExponent :: "real \<Rightarrow> int" where
  "binaryExponent a = (if a < pow2 (- 1022) then - 1022 else floorLog2 1100 a)"

text \<open>The multiple of \<open>2 ^ q\<close> nearest to \<open>a\<close>, ties to the even multiple.\<close>

definition roundAt :: "int \<Rightarrow> real \<Rightarrow> real" where
  "roundAt q a = of_int (roundEven (a / pow2 q)) * pow2 q"

text \<open>
  The number a real result is rounded to: 53 significant bits, and an infinity when the
  rounded magnitude reaches \<open>2 ^ 1024\<close>.
\<close>

definition fl :: "real \<Rightarrow> js_number" where
  "fl x =
     (if \<bar>x\<bar> \<ge> pow2 1024 \<or> roundAt (binaryExponent \<bar>x\<bar> - 52) \<bar>x\<bar> \<ge> pow2 1024
      then (if x > 0 then PosInfinity else NegInfinity)
      else Finite (if x < 0 then - roundAt (binaryExponent \<bar>x\<bar> - 52) \<bar>x\<bar>
                   else roundAt (binaryExponent \<bar>x\<bar> - 52) \<bar>x\<bar>))"

fun jsNeg :: "js_number \<Rightarrow> js_number" where
  "jsNeg (Finite x) = Finite (- x)"
| "jsNeg PosInfinity = NegInfinity"
| "jsNeg NegInfinity = PosInfinity"
| "jsNeg NaN = NaN"

fun jsAdd :: "js_number \<Rightarrow> js_number \<Rightarrow> js_number" where
  "jsAdd (Finite x) (Finite y) = fl (x + y)"
| "jsAdd NaN b = NaN"
| "jsAdd a NaN = NaN"
| "jsAdd PosInfinity NegInfinity = NaN"
| "jsAdd NegInfinity PosInfinity = NaN"
| "jsAdd PosInfinity b = PosInfinity"
| "jsAdd NegInfinity b = NegInfinity"
| "jsAdd a PosInfinity = PosInfinity"
| "jsAdd a NegInfinity = NegInfinity"

definition jsSub :: "js_number \<Rightarrow> js_number \<Rightarrow> js_number" where
  "jsSub a b = jsAdd a (jsNeg b)"

text \<open>The sign of a number: -1, 0 or 1 (0 for \<open>NaN\<close>).\<close>

fun jsSign :: "js_number \<Rightarrow> real" where
  "jsSign (Finite x) = sgn x"
| "jsSign PosInfinity = 1"
| "jsSign NegInfinity = - 1"
| "jsSign NaN = 0"

text \<open>The infinity of sign \<open>s\<close>; \<open>NaN\<close> for the sign 0 (as in \<open>0 * Infinity\<close> and \<open>0 / 0\<close>).\<close>

definition signedInfinity :: "real \<Rightarrow> js_number" where
  "signedInfinity s = (if s > 0 then PosInfinity else if s < 0 then NegInfinity else NaN)"

fun jsMul :: "js_number \<Rightarrow> js_number \<Rightarrow> js_number" where
  "jsMul (Finite x) (Finite y) = fl (x * y)"
| "jsMul NaN b = NaN"
| "jsMul a NaN = NaN"
| "jsMul a b = signedInfinity (jsSign a * jsSign b)"

fun jsDiv :: "js_number \<Rightarrow> js_number \<Rightarrow> js_number" where
  "jsDiv (Finite x) (Finite y) = (if y = 0 then signedInfinity x else fl (x / y))"
| "jsDiv NaN b = NaN"
| "jsDiv a NaN = NaN"
| "jsDiv (Finite x) b = Finite 0"
| "jsDiv a (Finite y) = signedInfinity (jsSign a * (if y < 0 then - 1 else 1))"
| "jsDiv a b = NaN"

definition jsSquare :: "js_number \<Rightarrow> js_number" where
  "jsSquare a = jsMul a a"

fun jsSqrt :: "js_number \<Rightarrow> js_number" where
  "jsSqrt (Finite x) = (if x < 0 then NaN else fl (sqrt x))"
| "jsSqrt PosInfinity = PosInfinity"
| "jsSqrt a = NaN"

fun jsAbs :: "js_number \<Rightarrow> js_number" where
  "jsAbs (Finite x) = Finite \<bar>x\<bar>"
| "jsAbs PosInfinity = PosInfinity"
| "jsAbs NegInfinity = PosInfinity"
| "jsAbs NaN = NaN"

text \<open>\<open>a < b\<close>; \<open>a > b\<close> is \<open>jsLess b a\<close>. Every comparison with \<open>NaN\<close> is false.\<close>

fun jsLess :: "js_number \<Rightarrow> js_number \<Rightarrow> bool" where
  "jsLess (Finite x) (Finite y) \<longleftrightarrow> x < y"
| "jsLess NaN b \<longleftrightarrow> False"
| "jsLess a NaN \<longleftrightarrow> False"
| "jsLess PosInfinity b \<longleftrightarrow> False"
| "jsLess a NegInfinity \<longleftrightarrow> False"
| "jsLess NegInfinity b \<longleftrightarrow> True"
| "jsLess a PosInfinity \<longleftrightarrow> True"

text \<open>\<open>Math.round\<close>: the nearest integer, halves upwards; it is exact.\<close>

fun Math_round :: "js_number \<Rightarrow> js_number" where
  "Math_round (Finite x) = Finite (of_int \<lfloor>x + 1 / 2\<rfloor>)"
| "Math_round a = a"

fun Math_min :: "js_number \<Rightarrow> js_number \<Rightarrow> js_number" where
  "Math_min NaN b = NaN"
| "Math_min a NaN = NaN"
| "Math_min a b = (if jsLess b a then b else a)"

fun Math_max :: "js_number \<Rightarrow> js_number \<Rightarrow> js_number" where
  "Math_max NaN b = NaN"
| "Math_max a NaN = NaN"
| "Math_max a b = (if jsLess a b then b else a)"

fun isNaN :: "js_number \<Rightarrow> bool" where
  "isNaN NaN = True"
| "isNaN a = False"

fun isFinite :: "js_number \<Rightarrow> bool" where
  "isFinite (Finite x) = True"
| "isFinite a = False"

text \<open>A number that is 0 or more, \<open>Infinity\<close> included.\<close>

fun isNonNegative :: "js_number \<Rightarrow> bool" where
  "isNonNegative (Finite x) = (0 \<le> x)"
| "isNonNegative PosInfinity = True"
| "isNonNegative a = False"

text \<open>\<open>xs.reduce((a, b) => a + b, 0)\<close>\<close>

definition jsSum :: "js_number list \<Rightarrow> js_number" where
  "jsSum xs = foldl jsAdd (Finite 0) xs"

text \<open>\<open>Math.round(v * m) / m\<close>\<close>

definition roundTo :: "real \<Rightarrow> js_number \<Rightarrow> js_number" where
  "roundTo m v = jsDiv (Math_round (jsMul v (Finite m))) (Finite m)"

section \<open>Thermal analysis\<close>

text \<open>\<open>Math.round\<close> on a real number: halves upwards.\<close>

definition jsRound :: "real \<Rightarrow> real" where
  "jsRound x = real_of_int \<lfloor>x + 1 / 2\<rfloor>"

datatype Direction = Rising | Falling | Stable

record RateOfChange =
  ratePerHour :: js_number
  r2 :: js_number
  direction :: Direction

text \<open>
  An element of the series given to \<open>calcRateOfChange\<close>: the function reads its
  \<open>timestamp\<close> and its \<open>tempF\<close>, any number.
\<close>

record RatePoint =
  rpTimestamp :: int
  rpTempF :: js_number

text \<open>The parts of \<open>calcRateOfChange\<close>, named as its local constants are.\<close>

definition rateWindow :: "RatePoint list \<Rightarrow> int \<Rightarrow> RatePoint list" where
  "rateWindow series windowMinutes =
     (let now = rpTimestamp (last series);
          cutoff = now - windowMinutes * 60000
      in filter (\<lambda>p. rpTimestamp p \<ge> cutoff) series)"

text \<open>\<open>xs\<close>: the hours elapsed since the first point of the window.\<close>

definition regressionXs :: "RatePoint list \<Rightarrow> js_number list" where
  "regressionXs window =
     map (\<lambda>p. jsDiv (fl (of_int (rpTimestamp p - rpTimestamp (hd window)))) (Finite 3600000))
       window"

text \<open>\<open>denom = n * sumX2 - sumX * sumX\<close>\<close>

definition regressionDenom :: "js_number list \<Rightarrow> js_number" where
  "regressionDenom xs =
     jsSub (jsMul (Finite (real (length xs))) (jsSum (map (\<lambda>x. jsMul x x) xs)))
       (jsMul (jsSum xs) (jsSum xs))"

text \<open>\<open>slope = (n * sumXY - sumX * sumY) / denom\<close>\<close>

definition regressionSlope :: "js_number list \<Rightarrow> js_number list \<Rightarrow> js_number" where
  "regressionSlope xs ys =
     jsDiv
       (jsSub
          (jsMul (Finite (real (length xs)))
             (jsSum (map (\<lambda>(x, y). jsMul x y) (zip xs ys))))
          (jsMul (jsSum xs) (jsSum ys)))
       (regressionDenom xs)"

text \<open>\<open>sumX / n\<close> and \<open>sumY / n\<close>, where \<open>n\<close> is the number of points.\<close>

definition meanOf :: "js_number list \<Rightarrow> nat \<Rightarrow> js_number" where
  "meanOf vs n = jsDiv (jsSum vs) (Finite (real n))"

text \<open>\<open>yHat = (sumY / n) + slope * (xs[i] - sumX / n)\<close>\<close>

definition yHat :: "js_number list \<Rightarrow> js_number list \<Rightarrow> js_number \<Rightarrow> js_number" where
  "yHat xs ys x =
     jsAdd (meanOf ys (length xs))
       (jsMul (regressionSlope xs ys) (jsSub x (meanOf xs (length xs))))"

definition ssRes :: "js_number list \<Rightarrow> js_number list \<Rightarrow> js_number" where
  "ssRes xs ys = jsSum (map (\<lambda>(y, x). jsSquare (jsSub y (yHat xs ys x))) (zip ys xs))"

definition ssTot :: "js_number list \<Rightarrow> js_number list \<Rightarrow> js_number" where
  "ssTot xs ys = jsSum (map (\<lambda>y. jsSquare (jsSub y (meanOf ys (length xs)))) ys)"

text \<open>\<open>r2 = ssTot > 0 ? 1 - ssRes / ssTot : 0\<close>\<close>

definition regressionR2 :: "js_number list \<Rightarrow> js_number list \<Rightarrow> js_number" where
  "regressionR2 xs ys =
     (if jsLess (Finite 0) (ssTot xs ys)
      then jsSub (Finite 1) (jsDiv (ssRes xs ys) (ssTot xs ys))
      else Finite 0)"

text \<open>The literals \<open>0.3\<close> and \<open>1e-10\<close> are the numbers nearest to them.\<close>

definition STABLE_THRESHOLD :: js_number where
  "STABLE_THRESHOLD = fl (3 / 10)"

definition DEGENERATE :: js_number where
  "DEGENERATE = fl (1 / 10 ^ 10)"

definition calcRateOfChange :: "RatePoint list \<Rightarrow> int \<Rightarrow> RateOfChange option" where
  "calcRateOfChange series windowMinutes =
     (if length series < 2 then None
      else let window = rateWindow series windowMinutes
           in if length window < 2 then None
              else let xs = regressionXs window;
                       ys = map rpTempF window
                   in if jsLess (jsAbs (regressionDenom xs)) DEGENERATE then None
                      else let slope = regressionSlope xs ys;
                               rsq = regressionR2 xs ys
                           in Some \<lparr>ratePerHour = roundTo 100 slope,
                                    r2 = roundTo 1000 rsq,
                                    direction =
                                      (if jsLess (jsAbs slope) STABLE_THRESHOLD then Stable
                                       else if jsLess (Finite 0) slope then Rising
                                       else Falling)\<rparr>)"

text \<open>
  \<open>estimateHeatLoss\<close> and \<open>rcPredict\<close> round nothing themselves; they are given on real
  numbers.
\<close>

definition estimateHeatLoss :: "real \<Rightarrow> real \<Rightarrow> real \<Rightarrow> real" where
  "estimateHeatLoss indoorTempF outdoorTempF thermalResistance =
     (if thermalResistance \<le> 0 then 0
      else (indoorTempF - outdoorTempF) / thermalResistance)"

definition rcPredict :: "real \<Rightarrow> real \<Rightarrow> real \<Rightarrow> real \<Rightarrow> real \<Rightarrow> real" where
  "rcPredict currentTemp sourceTemp resistance capacitance dtHours =
     (let tau = resistance * capacitance
      in if tau \<le> 0 then sourceTemp
         else sourceTemp + (currentTemp - sourceTemp) * exp (- dtHours / tau))"

record ZoneDelta =
  deltaF :: js_number
  absF :: js_number
  warmer :: string

text \<open>A zone's current temperature, a finite number, enters as the number it is.\<close>

definition calcZoneDelta :: "Zone \<Rightarrow> Zone \<Rightarrow> int \<Rightarrow> ZoneDelta option" where
  "calcZoneDelta zoneA zoneB now =
     (case (currentTempF zoneA now, currentTempF zoneB now) of
        (Some tA, Some tB) \<Rightarrow>
          (let delta = jsSub (Finite tA) (Finite tB)
           in Some \<lparr>deltaF = roundTo 10 delta,
                    absF = roundTo 10 (jsAbs delta),
                    warmer = (if jsLess (Finite 0) delta then zoneId zoneA
                              else if jsLess delta (Finite 0) then zoneId zoneB
                              else ''equal'')\<rparr>)
      | _ \<Rightarrow> None)"

record HouseSpread =
  spreadF :: js_number
  coldest :: string
  warmest :: string

text \<open>The zones that report a temperature, as (name, temperature), in zone order.\<close>

definition coveredZones :: "Zone list \<Rightarrow> int \<Rightarrow> (string \<times> real) list" where
  "coveredZones zones now =
     List.map_filter
       (\<lambda>z. case currentTempF z now of None \<Rightarrow> None | Some t \<Rightarrow> Some (name z, t)) zones"

text \<open>
  The comparator \<open>a.temp - b.temp\<close> orders finite temperatures as numbers (a difference of
  two different numbers is never rounded to 0), and the sort is stable.
\<close>

definition calcWholeHouseSpread :: "Zone list \<Rightarrow> int \<Rightarrow> HouseSpread option" where
  "calcWholeHouseSpread zones now =
     (let covered = coveredZones zones now
      in if length covered < 2 then None
         else let sorted = sort_key snd covered;
                  cold = hd sorted; warm = last sorted
              in Some \<lparr>spreadF = roundTo 10 (jsSub (Finite (snd warm)) (Finite (snd cold))),
                       coldest = fst cold, warmest = fst warm\<rparr>)"

definition zoneTemps :: "Zone list \<Rightarrow> int \<Rightarrow> real list" where
  "zoneTemps zones now = List.map_filter (\<lambda>z. currentTempF z now) zones"

text \<open>
  \<open>calcUniformityScore\<close> reads of every zone its \<open>currentTempF\<close> only, a number or
  \<open>null\<close>: its first argument here is the list of these values, in zone order, so that
  every number a zone can report is covered, \<open>Infinity\<close> and \<open>NaN\<close> included.
  \<open>reportedTemps\<close> is \<open>zones.map(z => z.currentTempF).filter(t => t !== null)\<close>.
\<close>

definition reportedTemps :: "js_number option list \<Rightarrow> js_number list" where
  "reportedTemps temperatures = List.map_filter (\<lambda>t. t) temperatures"

definition meanTemp :: "js_number list \<Rightarrow> js_number" where
  "meanTemp ts = jsDiv (jsSum ts) (Finite (real (length ts)))"

definition variance :: "js_number list \<Rightarrow> js_number" where
  "variance ts =
     jsDiv (foldl (\<lambda>s t. jsAdd s (jsSquare (jsSub t (meanTemp ts)))) (Finite 0) ts)
       (Finite (real (length ts)))"

definition stdDev :: "js_number list \<Rightarrow> js_number" where
  "stdDev ts = jsSqrt (variance ts)"

definition calcUniformityScore :: "js_number option list \<Rightarrow> js_number \<Rightarrow> js_number option" where
  "calcUniformityScore temperatures toleranceF =
     (if length (reportedTemps temperatures) < 2 then None
      else Some (Math_max (Finite 0)
             (Math_min (Finite 1)
                (jsSub (Finite 1) (jsDiv (stdDev (reportedTemps temperatures)) toleranceF)))))"

text \<open>The current temperatures of a list of zones, as \<open>calcUniformityScore\<close> reads them.\<close>

definition currentTemps :: "Zone list \<Rightarrow> int \<Rightarrow> js_number option list" where
  "currentTemps zones now = map (\<lambda>z. map_option Finite (currentTempF z now)) zones"

section \<open>Anomaly detection\<close>

datatype AnomalyLevel = Info | Warning | Danger

text \<open>
  An anomaly record. Its \<open>message\<close>, a display string formatted from the same data, is
  left out; \<open>anomalyValue\<close> is the optional \<open>value\<close>, a number.
\<close>

record Anomaly =
  level :: AnomalyLevel
  anomalyZoneId :: string
  code :: string
  anomalyValue :: "js_number option"

record Thresholds =
  comfortLowF :: real
  comfortHighF :: real
  dangerLowF :: real
  dangerHighF :: real
  maxRatePerHour :: real
  maxZoneDeltaF :: real
  maxWholeHouseSpreadF :: real
  staleSensorMinutes :: real

definition DEFAULT_THRESHOLDS :: Thresholds where
  "DEFAULT_THRESHOLDS =
     \<lparr>comfortLowF = 65, comfortHighF = 78, dangerLowF = 60, dangerHighF = 85,
      maxRatePerHour = 3, maxZoneDeltaF = 5, maxWholeHouseSpreadF = 8,
      staleSensorMinutes = 15\<rparr>"

text \<open>The overrides object: a key that is present replaces the default.\<close>

record ThresholdOverrides =
  ovComfortLowF :: "real option"
  ovComfortHighF :: "real option"
  ovDangerLowF :: "real option"
  ovDangerHighF :: "real option"
  ovMaxRatePerHour :: "real option"
  ovMaxZoneDeltaF :: "real option"
  ovMaxWholeHouseSpreadF :: "real option"
  ovStaleSensorMinutes :: "real option"

definition noOverrides :: ThresholdOverrides where
  "noOverrides =
     \<lparr>ovComfortLowF = None, ovComfortHighF = None, ovDangerLowF = None,
      ovDangerHighF = None, ovMaxRatePerHour = None, ovMaxZoneDeltaF = None,
      ovMaxWholeHouseSpreadF = None, ovStaleSensorMinutes = None\<rparr>"

definition orDefault :: "real option \<Rightarrow> real \<Rightarrow> real" where
  "orDefault ov d = (case ov of None \<Rightarrow> d | Some v \<Rightarrow> v)"

definition mergeThresholds :: "Thresholds \<Rightarrow> ThresholdOverrides \<Rightarrow> Thresholds" where
  "mergeThresholds d ov =
     \<lparr>comfortLowF = orDefault (ovComfortLowF ov) (comfortLowF d),
      comfortHighF = orDefault (ovComfortHighF ov) (comfortHighF d),
      dangerLowF = orDefault (ovDangerLowF ov) (dangerLowF d),
      dangerHighF = orDefault (ovDangerHighF ov) (dangerHighF d),
      maxRatePerHour = orDefault (ovMaxRatePerHour ov) (maxRatePerHour d),
      maxZoneDeltaF = orDefault (ovMaxZoneDeltaF ov) (maxZoneDeltaF d),
      maxWholeHouseSpreadF = orDefault (ovMaxWholeHouseSpreadF ov) (maxWholeHouseSpreadF d),
      staleSensorMinutes = orDefault (ovStaleSensorMinutes ov) (staleSensorMinutes d)\<rparr>"

text \<open>The temperature range checks of one zone: an \<open>if\<close>/\<open>else if\<close> chain.\<close>

definition tempRangeAnomalies :: "Thresholds \<Rightarrow> Zone \<Rightarrow> int \<Rightarrow> Anomaly list" where
  "tempRangeAnomalies T zone now =
     (case currentTempF zone now of
        None \<Rightarrow> []
      | Some temp \<Rightarrow>
          if temp < dangerLowF T then
            [\<lparr>level = Danger, anomalyZoneId = zoneId zone, code = ''TEMP_DANGER_LOW'',
              anomalyValue = Some (Finite temp)\<rparr>]
          else if temp < comfortLowF T then
            [\<lparr>level = Warning, anomalyZoneId = zoneId zone, code = ''TEMP_LOW'',
              anomalyValue = Some (Finite temp)\<rparr>]
          else if temp > dangerHighF T then
            [\<lparr>level = Danger, anomalyZoneId = zoneId zone, code = ''TEMP_DANGER_HIGH'',
              anomalyValue = Some (Finite temp)\<rparr>]
          else if temp > comfortHighF T then
            [\<lparr>level = Warning, anomalyZoneId = zoneId zone, code = ''TEMP_HIGH'',
              anomalyValue = Some (Finite temp)\<rparr>]
          else [])"

definition rateAnomalies ::
  "Thresholds \<Rightarrow> Zone \<Rightarrow> (string \<rightharpoonup> RateOfChange) \<Rightarrow> Anomaly list" where
  "rateAnomalies T zone rateOfChangeMap =
     (case rateOfChangeMap (zoneId zone) of
        None \<Rightarrow> []
      | Some rate \<Rightarrow>
          if jsLess (Finite (maxRatePerHour T)) (jsAbs (ratePerHour rate)) then
            [\<lparr>level = Warning, anomalyZoneId = zoneId zone, code = ''RAPID_CHANGE'',
              anomalyValue = Some (ratePerHour rate)\<rparr>]
          else [])"

definition coverageAnomalies :: "Zone \<Rightarrow> int \<Rightarrow> Anomaly list" where
  "coverageAnomalies zone now =
     (if sensorCount zone > 0 \<and> coverageStatus zone now = Uncovered then
        [\<lparr>level = Warning, anomalyZoneId = zoneId zone, code = ''ALL_SENSORS_OFFLINE'',
          anomalyValue = None\<rparr>]
      else if coverageStatus zone now = Partial then
        [\<lparr>level = Info, anomalyZoneId = zoneId zone, code = ''PARTIAL_COVERAGE'',
          anomalyValue = None\<rparr>]
      else [])"

definition spreadAnomalies :: "Thresholds \<Rightarrow> Zone \<Rightarrow> int \<Rightarrow> Anomaly list" where
  "spreadAnomalies T zone now =
     (case tempSpreadF zone now of
        None \<Rightarrow> []
      | Some spread \<Rightarrow>
          if spread > maxZoneDeltaF T then
            [\<lparr>level = Warning, anomalyZoneId = zoneId zone, code = ''INTRA_ZONE_SPREAD'',
              anomalyValue = Some (Finite spread)\<rparr>]
          else [])"

definition batteryAnomalies :: "Zone \<Rightarrow> int \<Rightarrow> Anomaly list" where
  "batteryAnomalies zone now =
     concat (map (\<lambda>sensor.
        case sensorCurrentBattery sensor now of
          None \<Rightarrow> []
        | Some battery \<Rightarrow>
            if battery < 20 then
              [\<lparr>level = (if battery < 10 then Warning else Info),
                anomalyZoneId = zoneId zone, code = ''LOW_BATTERY'',
                anomalyValue = Some (Finite battery)\<rparr>]
            else []) (sensors zone))"

text \<open>What one iteration of the loop over the zones pushes, in order.\<close>

definition zoneAnomalies ::
  "Thresholds \<Rightarrow> (string \<rightharpoonup> RateOfChange) \<Rightarrow> int \<Rightarrow> Zone \<Rightarrow> Anomaly list" where
  "zoneAnomalies T rateOfChangeMap now zone =
     tempRangeAnomalies T zone now @ rateAnomalies T zone rateOfChangeMap
       @ coverageAnomalies zone now @ spreadAnomalies T zone now
       @ batteryAnomalies zone now"

definition houseAnomalies :: "Thresholds \<Rightarrow> Zone list \<Rightarrow> int \<Rightarrow> Anomaly list" where
  "houseAnomalies T zones now =
     (let ts = zoneTemps zones now
      in if length ts \<ge> 2 then
           (let wholeSpread = Max (set ts) - Min (set ts)
            in if wholeSpread > maxWholeHouseSpreadF T then
                 [\<lparr>level = Warning, anomalyZoneId = ''__house__'', code = ''HOUSE_SPREAD'',
                   anomalyValue = Some (Finite wholeSpread)\<rparr>]
               else [])
         else [])"

text \<open>
  \<open>detectAnomalies\<close>. The weather argument is not read by the function; the wall clock
  is \<open>now\<close>.
\<close>

definition detectAnomalies ::
  "Zone list \<Rightarrow> (string \<rightharpoonup> RateOfChange) \<Rightarrow> ThresholdOverrides \<Rightarrow> int \<Rightarrow> Anomaly list" where
  "detectAnomalies zones rateOfChangeMap thresholdOverrides now =
     (let T = mergeThresholds DEFAULT_THRESHOLDS thresholdOverrides
      in concat (map (zoneAnomalies T rateOfChangeMap now) zones)
           @ houseAnomalies T zones now)"

datatype OverallStatus = StatusOk | StatusInfo | StatusWarning | StatusDanger

definition filterByLevel :: "Anomaly list \<Rightarrow> AnomalyLevel \<Rightarrow> Anomaly list" where
  "filterByLevel anomalies minLevel =
     (let rank = (\<lambda>l. case l of Info \<Rightarrow> (0::nat) | Warning \<Rightarrow> 1 | Danger \<Rightarrow> 2)
      in filter (\<lambda>a. rank (level a) \<ge> rank minLevel) anomalies)"

definition worstLevel :: "Anomaly list \<Rightarrow> OverallStatus" where
  "worstLevel anomalies =
     (if list_ex (\<lambda>a. level a = Danger) anomalies then StatusDanger
      else if list_ex (\<lambda>a. level a = Warning) anomalies then StatusWarning
      else if list_ex (\<lambda>a. level a = Info) anomalies then StatusInfo
      else StatusOk)"

text \<open>The temperature-band codes.\<close>

definition isTempBandCode :: "string \<Rightarrow> bool" where
  "isTempBandCode c \<longleftrightarrow>
     c = ''TEMP_DANGER_LOW'' \<or> c = ''TEMP_LOW'' \<or> c = ''TEMP_DANGER_HIGH'' \<or> c = ''TEMP_HIGH''"

section \<open>The use case: analyzeZones\<close>

text \<open>Of the weather snapshot the analysis reads \<open>tempF\<close> only.\<close>

record WeatherSnapshot =
  weatherTimestamp :: int
  weatherTempF :: "real option"

record ZoneAnalysis =
  analysisZoneId :: string
  rateOfChange :: "RateOfChange option"
  heatLossBtuHr :: "real option"
  indoorOutdoorDeltaF :: "real option"

record ZoneDeltaResult =
  zoneAId :: string
  zoneBId :: string
  zoneAName :: string
  zoneBName :: string
  delta :: "ZoneDelta option"

definition DEFAULT_R :: real where
  "DEFAULT_R = 1"

text \<open>
  \<open>thermalResistances.get(zone.zoneId) || DEFAULT_R\<close>: the default replaces a missing entry
  and every falsy one, so an entry of 0 as well.
\<close>

definition resistanceFor :: "(string \<rightharpoonup> real) \<Rightarrow> string \<Rightarrow> real" where
  "resistanceFor thermalResistances zid =
     (case thermalResistances zid of
        None \<Rightarrow> DEFAULT_R
      | Some r \<Rightarrow> if r = 0 then DEFAULT_R else r)"

text \<open>\<open>weather?.tempF\<close>, when it is neither \<open>null\<close> nor \<open>undefined\<close>.\<close>

definition outdoorTempF :: "WeatherSnapshot option \<Rightarrow> real option" where
  "outdoorTempF weather = (case weather of None \<Rightarrow> None | Some w \<Rightarrow> weatherTempF w)"

text \<open>A point of the zone's series, as \<open>calcRateOfChange\<close> reads it.\<close>

definition ratePoint :: "SeriesPoint \<Rightarrow> RatePoint" where
  "ratePoint p = \<lparr>rpTimestamp = ptTimestamp p, rpTempF = Finite (ptTempF p)\<rparr>"

definition analyzeZone ::
  "WeatherSnapshot option \<Rightarrow> (string \<rightharpoonup> real) \<Rightarrow> int \<Rightarrow> Zone \<Rightarrow> ZoneAnalysis" where
  "analyzeZone weather thermalResistances now zone =
     (let series = getTimeSeries zone 1 5 now;
          rate = calcRateOfChange (map ratePoint series) 30
      in case (currentTempF zone now, outdoorTempF weather) of
           (Some temp, Some outdoor) \<Rightarrow>
             (let R = resistanceFor thermalResistances (zoneId zone)
              in \<lparr>analysisZoneId = zoneId zone, rateOfChange = rate,
                  heatLossBtuHr = Some (jsRound (estimateHeatLoss temp outdoor R * 10) / 10),
                  indoorOutdoorDeltaF = Some (jsRound ((temp - outdoor) * 10) / 10)\<rparr>)
         | _ \<Rightarrow>
             \<lparr>analysisZoneId = zoneId zone, rateOfChange = rate,
              heatLossBtuHr = None, indoorOutdoorDeltaF = None\<rparr>)"

text \<open>The first loop: the two maps it fills, keyed by \<open>zoneId\<close>.\<close>

definition perZoneStep ::
  "WeatherSnapshot option \<Rightarrow> (string \<rightharpoonup> real) \<Rightarrow> int \<Rightarrow>
   (string \<rightharpoonup> ZoneAnalysis) \<times> (string \<rightharpoonup> RateOfChange) \<Rightarrow> Zone \<Rightarrow>
   (string \<rightharpoonup> ZoneAnalysis) \<times> (string \<rightharpoonup> RateOfChange)" where
  "perZoneStep weather thermalResistances now st zone =
     (let za = analyzeZone weather thermalResistances now zone;
          rateMap = (case rateOfChange za of
                       None \<Rightarrow> snd st
                     | Some rate \<Rightarrow> (snd st)(zoneId zone \<mapsto> rate))
      in ((fst st)(zoneId zone \<mapsto> za), rateMap))"

text \<open>
  \<open>[zone.zoneId, adjId].sort().join('::')\<close>: the default sort orders strings by their
  code units, which is the lexicographic order of \<open>string\<close>.
\<close>

definition pairKey :: "string \<Rightarrow> string \<Rightarrow> string" where
  "pairKey a b = (if b < a then b @ ''::'' @ a else a @ ''::'' @ b)"

text \<open>\<open>new Map(zones.map(z => [z.zoneId, z]))\<close>: of two zones with one id the later wins.\<close>

definition zoneMapOf :: "Zone list \<Rightarrow> (string \<rightharpoonup> Zone)" where
  "zoneMapOf zones = map_of (rev (map (\<lambda>z. (zoneId z, z)) zones))"

text \<open>The body of the inner loop over \<open>zone.adjacentZoneIds\<close>.\<close>

definition adjacencyStep ::
  "(string \<rightharpoonup> Zone) \<Rightarrow> int \<Rightarrow> Zone \<Rightarrow> ZoneDeltaResult list \<times> string set \<Rightarrow> string \<Rightarrow>
   ZoneDeltaResult list \<times> string set" where
  "adjacencyStep zoneMap now zone st adjId =
     (let key = pairKey (zoneId zone) adjId
      in if key \<in> snd st then st
         else let processedPairs = insert key (snd st)
              in case zoneMap adjId of
                   None \<Rightarrow> (fst st, processedPairs)
                 | Some adjZone \<Rightarrow>
                     (fst st @ [\<lparr>zoneAId = zoneId zone, zoneBId = adjId,
                                  zoneAName = name zone, zoneBName = name adjZone,
                                  delta = calcZoneDelta zone adjZone now\<rparr>],
                      processedPairs))"

definition zoneDeltas :: "Zone list \<Rightarrow> int \<Rightarrow> ZoneDeltaResult list" where
  "zoneDeltas zones now =
     fst (foldl (\<lambda>st zone. foldl (adjacencyStep (zoneMapOf zones) now zone) st
                   (adjacentZoneIds zone))
            ([], {}) zones)"

record AnalysisResult =
  zoneAnalyses :: "string \<rightharpoonup> ZoneAnalysis"
  deltas :: "ZoneDeltaResult list"
  houseSpread :: "HouseSpread option"
  uniformityScore :: "js_number option"
  anomalies :: "Anomaly list"
  overallStatus :: OverallStatus

definition analyzeZones ::
  "Zone list \<Rightarrow> WeatherSnapshot option \<Rightarrow> (string \<rightharpoonup> real) \<Rightarrow> int \<Rightarrow> AnalysisResult" where
  "analyzeZones zones weather thermalResistances now =
     (let st = foldl (perZoneStep weather thermalResistances now) (Map.empty, Map.empty) zones;
          found = detectAnomalies zones (snd st) noOverrides now
      in \<lparr>zoneAnalyses = fst st,
          deltas = zoneDeltas zones now,
          houseSpread = calcWholeHouseSpread zones now,
          uniformityScore = calcUniformityScore (currentTemps zones now) (Finite 2),
          anomalies = found,
          overallStatus = worstLevel found\<rparr>)"

section \<open>Example values\<close>

definition mkReading :: "string \<Rightarrow> int \<Rightarrow> real \<Rightarrow> Reading" where
  "mkReading sid ts t =
     \<lparr>sensorId = sid, timestamp = ts, tempF = t, humidityPct = None, batteryPct = None\<rparr>"

definition mkSensor :: "string \<Rightarrow> Reading list \<Rightarrow> Sensor" where
  "mkSensor sid rs = \<lparr>s_sensorId = sid, label = sid, deviceId = None, readings = rs\<rparr>"

definition mkZone :: "string \<Rightarrow> string list \<Rightarrow> Sensor list \<Rightarrow> Zone" where
  "mkZone zid adj ss =
     \<lparr>zoneId = zid, name = zid, hvacZone = None, adjacentZoneIds = adj, sensors = ss\<rparr>"

text \<open>A zone whose single sensor reported temperature \<open>t\<close> at time 0.\<close>

definition zoneAt :: "string \<Rightarrow> string list \<Rightarrow> real \<Rightarrow> Zone" where
  "zoneAt zid adj t = mkZone zid adj [mkSensor zid [mkReading zid 0 t]]"

text \<open>The number a decimal literal denotes, and a point of a series.\<close>

definition mkPoint :: "int \<Rightarrow> js_number \<Rightarrow> RatePoint" where
  "mkPoint ts t = \<lparr>rpTimestamp = ts, rpTempF = t\<rparr>"

text \<open>The literal \<open>70.1\<close>.\<close>

definition seventyPointOne :: js_number where
  "seventyPointOne = fl (701 / 10)"

text \<open>Six points five minutes apart, all at 70.1, and the regression's \<open>xs\<close> and \<open>ys\<close> on them.\<close>

definition constantSeries :: "RatePoint list" where
  "constantSeries =
     [mkPoint 0 seventyPointOne,
      mkPoint 300000 seventyPointOne,
      mkPoint 600000 seventyPointOne,
      mkPoint 900000 seventyPointOne,
      mkPoint 1200000 seventyPointOne,
      mkPoint 1500000 seventyPointOne]"

definition constantSeriesXs :: "js_number list" where
  "constantSeriesXs =
     [Finite 0,
      Finite (6004799503160661 / 72057594037927936),
      Finite (6004799503160661 / 36028797018963968),
      Finite (1 / 4),
      Finite (6004799503160661 / 18014398509481984),
      Finite (7505999378950827 / 18014398509481984)]"

definition constantSeriesYs :: "js_number list" where
  "constantSeriesYs =
     [Finite (2466424483427123 / 35184372088832),
      Finite (2466424483427123 / 35184372088832),
      Finite (2466424483427123 / 35184372088832),
      Finite (2466424483427123 / 35184372088832),
      Finite (2466424483427123 / 35184372088832),
      Finite (2466424483427123 / 35184372088832)]"

text \<open>Three points ten minutes apart, at 0, 1 and 3.\<close>

definition risingSeries :: "RatePoint list" where
  "risingSeries =
     [mkPoint 0 (Finite 0),
      mkPoint 600000 (Finite 1),
      mkPoint 1200000 (Finite 3)]"

definition risingSeriesXs :: "js_number list" where
  "risingSeriesXs =
     [Finite 0,
      Finite (6004799503160661 / 36028797018963968),
      Finite (6004799503160661 / 18014398509481984)]"

definition risingSeriesYs :: "js_number list" where
  "risingSeriesYs =
     [Finite 0,
      Finite 1,
      Finite 3]"

text \<open>Lists of zone temperatures.\<close>

definition twoApart :: "js_number option list" where
  "twoApart =
     [Some (Finite 70), Some (Finite 72)]"

definition sixAlike :: "js_number option list" where
  "sixAlike =
     [Some seventyPointOne, Some seventyPointOne, Some seventyPointOne, Some seventyPointOne, Some seventyPointOne, Some seventyPointOne]"

definition withInfinity :: "js_number option list" where
  "withInfinity =
     [Some PosInfinity, Some (Finite 70)]"

definition twoAlike :: "js_number option list" where
  "twoAlike =
     [Some (Finite 70), Some (Finite 70)]"

definition oneReported :: "js_number option list" where
  "oneReported =
     [Some (Finite 70), None]"

definition quarterApart :: "js_number option list" where
  "quarterApart =
     [Some (Finite 70), Some (Finite (281 / 4))]"

section \<open>Rounded values\<close>

text \<open>
  \<open>r\<close> is \<open>v\<close> rounded to a multiple of \<open>1 / m\<close>: the number nearest to \<open>k / m\<close> for
  an integer \<open>k\<close> at most one half away from \<open>v * m\<close> as computed. When \<open>v * m\<close> is
  not finite, \<open>r\<close> is that value.
\<close>

definition isRoundedTo :: "real \<Rightarrow> js_number \<Rightarrow> js_number \<Rightarrow> bool" where
  "isRoundedTo m v r \<longleftrightarrow>
     (case jsMul v (Finite m) of
        Finite s \<Rightarrow> \<exists>k::int. r = fl (of_int k / m) \<and> \<bar>of_int k - s\<bar> \<le> 1 / 2
      | other \<Rightarrow> r = other)"

section \<open>The invariant of the adjacency loop\<close>

text \<open>
  Every delta pushed so far has its pair key in \<open>processedPairs\<close>, the keys of the deltas
  pushed are pairwise different, and the second zone of each delta is in the zone map.
\<close>

definition deltaKey :: "ZoneDeltaResult \<Rightarrow> string" where
  "deltaKey d = pairKey (zoneAId d) (zoneBId d)"

definition deltaInv :: "(string \<rightharpoonup> Zone) \<Rightarrow> ZoneDeltaResult list \<times> string set \<Rightarrow> bool" where
  "deltaInv zoneMap st \<longleftrightarrow>
     deltaKey ` set (fst st) \<subseteq> snd st \<and> distinct (map deltaKey (fst st)) \<and>
     zoneBId ` set (fst st) \<subseteq> dom zoneMap"

section \<open>The invariant of the bucketing loop\<close>

text \<open>
  After the readings \<open>rs\<close> have been pushed, the keys of the association list are
  pairwise different, every reading's key is present, and the bucket under key \<open>k\<close> holds
  the temperatures of exactly the readings of \<open>rs\<close> with key \<open>k\<close>, in order, and the
  midpoint of its interval.
\<close>

definition bucketsInv :: "int \<Rightarrow> Reading list \<Rightarrow> (int \<times> Bucket) list \<Rightarrow> bool" where
  "bucketsInv bucketMs rs buckets \<longleftrightarrow>
     distinct (map fst buckets) \<and>
     (\<forall>r \<in> set rs. map_of buckets (bucketKey bucketMs r) \<noteq> None) \<and>
     (\<forall>k b. map_of buckets k = Some b \<longrightarrow>
        temps b = map tempF (filter (\<lambda>r. bucketKey bucketMs r = k) rs) \<and>
        bucketTimestamp b = k + bucketMs div 2)"

section \<open>Properties of the sensor history\<close>

lemma dropNear_subset: "set (dropNear p rs) \<subseteq> set rs"
  by (induction rs arbitrary: p) auto

lemma dedupe_subset: "set (dedupe rs) \<subseteq> set rs"
  using dropNear_subset by (cases rs) auto

lemma dropNear_gap:
  "sorted (map timestamp (p # rs)) \<Longrightarrow>
     (\<forall>x \<in> set (dropNear p rs). timestamp x - timestamp p > 1000) \<and>
     sorted_wrt (\<lambda>a b. timestamp b - timestamp a > 1000) (dropNear p rs)"
proof (induction rs arbitrary: p)
  case Nil
  then show ?case by simp
next
  case (Cons r rs)
  from Cons.prems have pr: "timestamp p \<le> timestamp r"
    and srt: "sorted (map timestamp (r # rs))" by auto
  from Cons.IH [OF srt] have
    far: "\<forall>x \<in> set (dropNear r rs). timestamp x - timestamp r > 1000"
    and sw: "sorted_wrt (\<lambda>a b. timestamp b - timestamp a > 1000) (dropNear r rs)"
    by auto
  from far pr have far': "\<forall>x \<in> set (dropNear r rs). timestamp x - timestamp p > 1000"
    by fastforce
  show ?case using far far' sw pr by auto
qed

lemma dedupe_gap:
  "sorted (map timestamp rs) \<Longrightarrow>
     sorted_wrt (\<lambda>a b. timestamp b - timestamp a > 1000) (dedupe rs)"
  using dropNear_gap by (cases rs) auto

lemma dropNear_nths:
  "dropNear p rs =
     nths rs {i. \<bar>timestamp (rs ! i) - timestamp ((p # rs) ! i)\<bar> > 1000}"
proof (induction rs arbitrary: p)
  case Nil
  then show ?case by simp
next
  case (Cons r rs)
  have "{j. Suc j \<in> {i. \<bar>timestamp ((r # rs) ! i) - timestamp ((p # r # rs) ! i)\<bar> > 1000}}
      = {i. \<bar>timestamp (rs ! i) - timestamp ((r # rs) ! i)\<bar> > 1000}"
    by simp
  then show ?case using Cons.IH [of r] by (simp add: nths_Cons)
qed

lemma dedupe_nths:
  "dedupe rs =
     nths rs {i. i = 0 \<or> \<bar>timestamp (rs ! i) - timestamp (rs ! (i - 1))\<bar> > 1000}"
proof (cases rs)
  case Nil
  then show ?thesis by simp
next
  case (Cons r rs')
  have "{j. Suc j \<in> {i. i = 0 \<or> \<bar>timestamp ((r # rs') ! i) - timestamp ((r # rs') ! (i - 1))\<bar> > 1000}}
      = {i. \<bar>timestamp (rs' ! i) - timestamp ((r # rs') ! i)\<bar> > 1000}"
    by simp
  then show ?thesis using Cons dropNear_nths [of r rs'] by (simp add: nths_Cons)
qed

text \<open>
  A sensor holds only its own readings when it is constructed and after
  \<open>clearReadings\<close>, and \<open>ingestReadings\<close> leaves its identity alone.
\<close>

lemma newSensor_own_readings:
  "\<forall>r \<in> set (readings (newSensor sid lbl dev)). sensorId r = s_sensorId (newSensor sid lbl dev)"
  by (simp add: newSensor_def)

lemma clearReadings_own_readings:
  "\<forall>r \<in> set (readings (clearReadings s)). sensorId r = s_sensorId (clearReadings s)"
  by (simp add: clearReadings_def)

lemma ingestReadings_sensorId: "s_sensorId (ingestReadings s rs) = s_sensorId s"
  by (simp add: ingestReadings_def)

text \<open>
  C2. After \<open>ingestReadings\<close> the stored history is strictly ascending by timestamp,
  any two stored entries are more than 1000 ms apart, and the stored history is the
  stably sorted array of pushed readings restricted to index 0 and to the indices whose
  reading is more than 1000 ms after the reading just before it in that array: of a run
  of readings each within one second of its predecessor, the first is kept and the
  rest are dropped. If the history held only readings of this sensor before the call
  (as it does from construction on), it holds only readings of this sensor after it.
\<close>

theorem ingestReadings_sorted_deduplicated:
  "((\<forall>r \<in> set (readings s). sensorId r = s_sensorId s) \<longrightarrow>
      (\<forall>r \<in> set (readings (ingestReadings s rs)). sensorId r = s_sensorId s)) \<and>
    sorted_wrt (\<lambda>a b. timestamp a < timestamp b) (readings (ingestReadings s rs)) \<and>
    sorted_wrt (\<lambda>a b. timestamp b - timestamp a > 1000) (readings (ingestReadings s rs)) \<and>
    readings (ingestReadings s rs) =
      nths (sort_key timestamp (pushMatching s rs))
        {i. i = 0 \<or>
          \<bar>timestamp (sort_key timestamp (pushMatching s rs) ! i)
            - timestamp (sort_key timestamp (pushMatching s rs) ! (i - 1))\<bar> > 1000}"
proof -
  let ?arr = "sort_key timestamp (pushMatching s rs)"
  have h: "readings (ingestReadings s rs) = dedupe ?arr"
    by (simp add: ingestReadings_def)
  have sub: "set (dedupe ?arr) \<subseteq> set (pushMatching s rs)"
    using dedupe_subset [of ?arr] by simp
  have c1: "\<forall>r \<in> set (dedupe ?arr). sensorId r = s_sensorId s"
    if "\<forall>r \<in> set (readings s). sensorId r = s_sensorId s"
  proof -
    from that have "\<forall>r \<in> set (pushMatching s rs). sensorId r = s_sensorId s"
      by (auto simp: pushMatching_def)
    with sub show ?thesis by blast
  qed
  have c3: "sorted_wrt (\<lambda>a b. timestamp b - timestamp a > 1000) (dedupe ?arr)"
    by (rule dedupe_gap) simp
  have c2: "sorted_wrt (\<lambda>a b. timestamp a < timestamp b) (dedupe ?arr)"
    by (rule sorted_wrt_mono_rel [OF _ c3]) simp
  show ?thesis
    unfolding h using c1 c2 c3 dedupe_nths [of ?arr] by simp
qed

theorem ingestReadings_sorted_deduplicated_witness:
  "map sensorId (readings (mkSensor ''s1'' [mkReading ''s1'' 9000 70]))
     = [s_sensorId (mkSensor ''s1'' [mkReading ''s1'' 9000 70])] \<and>
   list_all (\<lambda>r. sensorId r = ''s1'')
     (readings (ingestReadings (mkSensor ''s1'' [mkReading ''s1'' 9000 70])
        [mkReading ''s1'' 5000 71, mkReading ''s1'' 0 68, mkReading ''s2'' 0 50,
         mkReading ''s1'' 1200 69.5, mkReading ''s1'' 600 69, mkReading ''s1'' 3000 70])) \<and>
   sorted_wrt (\<lambda>a b. timestamp b - timestamp a > 1000)
     (readings (ingestReadings (mkSensor ''s1'' [mkReading ''s1'' 9000 70])
        [mkReading ''s1'' 5000 71, mkReading ''s1'' 0 68, mkReading ''s2'' 0 50,
         mkReading ''s1'' 1200 69.5, mkReading ''s1'' 600 69, mkReading ''s1'' 3000 70])) \<and>
   readings (ingestReadings (mkSensor ''s1'' [mkReading ''s1'' 9000 70])
        [mkReading ''s1'' 5000 71, mkReading ''s1'' 0 68, mkReading ''s2'' 0 50,
         mkReading ''s1'' 1200 69.5, mkReading ''s1'' 600 69, mkReading ''s1'' 3000 70])
     = [mkReading ''s1'' 0 68, mkReading ''s1'' 3000 70, mkReading ''s1'' 5000 71,
        mkReading ''s1'' 9000 70]"
proof -
  let ?s = "mkSensor ''s1'' [mkReading ''s1'' 9000 70]"
  let ?rs = "[mkReading ''s1'' 5000 71, mkReading ''s1'' 0 68, mkReading ''s2'' 0 50,
         mkReading ''s1'' 1200 69.5, mkReading ''s1'' 600 69, mkReading ''s1'' 3000 70]"
  have h: "\<forall>r \<in> set (readings ?s). sensorId r = s_sensorId ?s"
    by (simp add: mkSensor_def mkReading_def)
  have m: "map sensorId (readings ?s) = [s_sensorId ?s]"
    by (simp add: mkSensor_def mkReading_def)
  have e: "readings (ingestReadings ?s ?rs)
     = [mkReading ''s1'' 0 68, mkReading ''s1'' 3000 70, mkReading ''s1'' 5000 71,
        mkReading ''s1'' 9000 70]"
    by (simp add: ingestReadings_def pushMatching_def mkSensor_def mkReading_def)
  note t = ingestReadings_sorted_deduplicated [of ?s ?rs]
  from t h have "\<forall>r \<in> set (readings (ingestReadings ?s ?rs)). sensorId r = s_sensorId ?s"
    by blast
  then have own: "list_all (\<lambda>r. sensorId r = ''s1'') (readings (ingestReadings ?s ?rs))"
    by (simp add: list_all_iff mkSensor_def)
  from t have gap: "sorted_wrt (\<lambda>a b. timestamp b - timestamp a > 1000)
      (readings (ingestReadings ?s ?rs))"
    by blast
  from m own gap e show ?thesis by blast
qed

section \<open>Constructing a Reading\<close>

text \<open>
  C5 (as the code has it). Constructing a Reading fails exactly when \<open>tempF\<close> is not of
  type number or is \<open>NaN\<close>. For every other number, finite or infinite, it succeeds and
  stores all five fields as given, whatever the remaining fields are.
\<close>

theorem Reading_constructor_fails_iff_not_a_number:
  "(isl (Reading_constructor a) \<longleftrightarrow> (\<forall>n. argTempF a = JsNumber n \<longrightarrow> n = NaN)) \<and>
   (\<forall>n. argTempF a = JsNumber n \<and> n \<noteq> NaN \<longrightarrow>
      Reading_constructor a =
        Inr \<lparr>sensorId = argSensorId a, timestamp = argTimestamp a, tempF = n,
             humidityPct = argHumidityPct a, batteryPct = argBatteryPct a\<rparr>)"
proof (cases "argTempF a")
  case (JsNumber n)
  then show ?thesis by (cases n) (simp_all add: Reading_constructor_def)
qed (simp_all add: Reading_constructor_def)

theorem Reading_constructor_fails_iff_not_a_number_witness:
  "isl (Reading_constructor \<lparr>argSensorId = ''s1'', argTimestamp = 0, argTempF = JsString ''warm'',
          argHumidityPct = None, argBatteryPct = None\<rparr>) \<and>
   isl (Reading_constructor \<lparr>argSensorId = ''s1'', argTimestamp = 0, argTempF = JsNumber NaN,
          argHumidityPct = None, argBatteryPct = None\<rparr>) \<and>
   Reading_constructor \<lparr>argSensorId = ''s1'', argTimestamp = 0,
          argTempF = JsNumber (Finite (-500)), argHumidityPct = Some 140, argBatteryPct = None\<rparr>
     = Inr \<lparr>sensorId = ''s1'', timestamp = 0, tempF = Finite (-500),
            humidityPct = Some 140, batteryPct = None\<rparr>"
  using Reading_constructor_fails_iff_not_a_number
          [of "\<lparr>argSensorId = ''s1'', argTimestamp = 0, argTempF = JsString ''warm'',
                argHumidityPct = None, argBatteryPct = None\<rparr>"]
        Reading_constructor_fails_iff_not_a_number
          [of "\<lparr>argSensorId = ''s1'', argTimestamp = 0, argTempF = JsNumber NaN,
                argHumidityPct = None, argBatteryPct = None\<rparr>"]
        Reading_constructor_fails_iff_not_a_number
          [of "\<lparr>argSensorId = ''s1'', argTimestamp = 0, argTempF = JsNumber (Finite (-500)),
                argHumidityPct = Some 140, argBatteryPct = None\<rparr>"]
  by simp

text \<open>
  C5 as stated fails: \<open>Infinity\<close> is not a finite number, and a Reading is constructed
  from it.
\<close>

theorem Reading_constructor_accepts_infinity:
  "\<not> Number_isFinite (JsNumber PosInfinity) \<and>
   Reading_constructor \<lparr>argSensorId = ''s1'', argTimestamp = 0, argTempF = JsNumber PosInfinity,
       argHumidityPct = None, argBatteryPct = None\<rparr>
     = Inr \<lparr>sensorId = ''s1'', timestamp = 0, tempF = PosInfinity,
            humidityPct = None, batteryPct = None\<rparr>"
  by (simp add: Reading_constructor_def)

section \<open>Coverage status\<close>

lemma filter_length_zero_iff: "length (filter P xs) = 0 \<longleftrightarrow> (\<forall>x \<in> set xs. \<not> P x)"
  by (simp add: filter_empty_conv)

lemma filter_length_less_iff: "length (filter P xs) < length xs \<longleftrightarrow> (\<exists>x \<in> set xs. \<not> P x)"
proof
  assume "length (filter P xs) < length xs"
  then have "filter P xs \<noteq> xs" by auto
  then show "\<exists>x \<in> set xs. \<not> P x" by (simp add: filter_id_conv)
next
  assume "\<exists>x \<in> set xs. \<not> P x"
  then show "length (filter P xs) < length xs" by (auto intro: length_filter_less)
qed

text \<open>
  C8. The coverage status of a zone is uncovered exactly when it has no sensor or none of
  its sensors is online, partial exactly when some but not all of its sensors are online,
  and covered exactly when it has a sensor and all its sensors are online; in particular
  a zone with no sensor, or with all sensors offline, is uncovered.
\<close>

theorem coverageStatus_cases:
  "(coverageStatus z now = Uncovered \<longleftrightarrow>
      sensors z = [] \<or> (\<forall>s \<in> set (sensors z). status s now \<noteq> Online)) \<and>
   (coverageStatus z now = Partial \<longleftrightarrow>
      (\<exists>s \<in> set (sensors z). status s now = Online) \<and>
      (\<exists>s \<in> set (sensors z). status s now \<noteq> Online)) \<and>
   (coverageStatus z now = Covered \<longleftrightarrow>
      sensors z \<noteq> [] \<and> (\<forall>s \<in> set (sensors z). status s now = Online)) \<and>
   (sensors z = [] \<or> (\<forall>s \<in> set (sensors z). status s now = Offline) \<longrightarrow>
      coverageStatus z now = Uncovered)"
proof -
  let ?on = "\<lambda>s. status s now = Online"
  have z: "length (filter ?on (sensors z)) = 0 \<longleftrightarrow> (\<forall>s \<in> set (sensors z). \<not> ?on s)"
    by (rule filter_length_zero_iff)
  have l: "length (filter ?on (sensors z)) < length (sensors z) \<longleftrightarrow>
      (\<exists>s \<in> set (sensors z). \<not> ?on s)"
    by (rule filter_length_less_iff)
  show ?thesis
  proof (cases "sensors z = []")
    case True
    then show ?thesis by (simp add: coverageStatus_def)
  next
    case False
    then obtain s0 where "s0 \<in> set (sensors z)" by (cases "sensors z") auto
    then show ?thesis
      using False z l unfolding coverageStatus_def Let_def
      by (auto simp del: length_0_conv length_greater_0_conv)
  qed
qed

lemma status_offline_example: "status (mkSensor ''off'' []) 0 = Offline"
  by (simp add: status_def latestReading_def mkSensor_def)

lemma status_online_example: "status (mkSensor ''on'' [mkReading ''on'' 0 70]) 0 = Online"
  by (simp add: status_def latestReading_def mkSensor_def mkReading_def isStale_def
      ageMinutes_def)

theorem coverageStatus_cases_witness:
  "coverageStatus (mkZone ''z'' [] [mkSensor ''on'' [mkReading ''on'' 0 70], mkSensor ''off'' []]) 0
     = Partial \<and>
   coverageStatus (mkZone ''z'' [] [mkSensor ''off'' [], mkSensor ''off'' []]) 0 = Uncovered \<and>
   coverageStatus (mkZone ''z'' [] [mkSensor ''on'' [mkReading ''on'' 0 70],
      mkSensor ''on'' [mkReading ''on'' 0 70]]) 0 = Covered"
  using coverageStatus_cases
          [of "mkZone ''z'' [] [mkSensor ''on'' [mkReading ''on'' 0 70], mkSensor ''off'' []]" 0]
        coverageStatus_cases [of "mkZone ''z'' [] [mkSensor ''off'' [], mkSensor ''off'' []]" 0]
        coverageStatus_cases
          [of "mkZone ''z'' [] [mkSensor ''on'' [mkReading ''on'' 0 70],
                 mkSensor ''on'' [mkReading ''on'' 0 70]]" 0]
        status_offline_example status_online_example
  by (simp add: mkZone_def)

section \<open>Heat loss\<close>

lemma sensorTemps_zoneAt: "sensorTemps (zoneAt zid adj t) 0 = [t]"
  by (simp add: sensorTemps_def zoneAt_def mkZone_def mkSensor_def mkReading_def
      List.map_filter_simps sensorCurrentTempF_def latestReading_def isStale_def ageMinutes_def)

lemma currentTempF_zoneAt: "currentTempF (zoneAt zid adj t) 0 = Some t"
  by (simp add: currentTempF_def sensorTemps_zoneAt)

lemma zoneId_zoneAt: "zoneId (zoneAt zid adj t) = zid"
  by (simp add: zoneAt_def mkZone_def)

text \<open>
  C4. \<open>estimateHeatLoss\<close> itself returns 0 for a resistance of 0, but \<open>analyzeZones\<close>
  replaces an override of 0 by the default resistance before the call: a zone at 72
  degrees with 32 degrees outdoors and an override of 0 is given a heat loss of 40.
\<close>

theorem analyzeZones_zero_override_uses_default:
  "estimateHeatLoss 72 32 0 = 0 \<and>
   map_option heatLossBtuHr
     (zoneAnalyses
        (analyzeZones [zoneAt ''nursery'' [] 72]
           (Some \<lparr>weatherTimestamp = 0, weatherTempF = Some 32\<rparr>)
           [''nursery'' \<mapsto> 0] 0) ''nursery'')
     = Some (Some 40)"
  by (simp add: analyzeZones_def perZoneStep_def analyzeZone_def Let_def resistanceFor_def
      DEFAULT_R_def estimateHeatLoss_def jsRound_def outdoorTempF_def currentTempF_zoneAt
      zoneId_zoneAt)

section \<open>Temperature-band anomalies\<close>

lemma concat_map_single:
  "distinct xs \<Longrightarrow> z \<in> set xs \<Longrightarrow> concat (map (\<lambda>x. if x = z then ys else []) xs) = ys"
proof (induction xs)
  case Nil
  then show ?case by simp
next
  case (Cons x xs)
  show ?case
  proof (cases "x = z")
    case True
    with Cons.prems have "z \<notin> set xs" by simp
    then have "concat (map (\<lambda>x. if x = z then ys else []) xs) = []" by (induction xs) auto
    with True show ?thesis by simp
  next
    case False
    with Cons show ?thesis by simp
  qed
qed

lemma tempRange_band:
  "\<forall>a \<in> set (tempRangeAnomalies T z now). anomalyZoneId a = zoneId z \<and> isTempBandCode (code a)"
  by (auto simp: tempRangeAnomalies_def isTempBandCode_def split: option.splits)

lemma rate_not_band: "\<forall>a \<in> set (rateAnomalies T z m). \<not> isTempBandCode (code a)"
  by (auto simp: rateAnomalies_def isTempBandCode_def split: option.splits)

lemma coverage_not_band: "\<forall>a \<in> set (coverageAnomalies z now). \<not> isTempBandCode (code a)"
  by (auto simp: coverageAnomalies_def isTempBandCode_def)

lemma spread_not_band: "\<forall>a \<in> set (spreadAnomalies T z now). \<not> isTempBandCode (code a)"
  by (auto simp: spreadAnomalies_def isTempBandCode_def split: option.splits)

lemma battery_not_band: "\<forall>a \<in> set (batteryAnomalies z now). \<not> isTempBandCode (code a)"
  by (auto simp: batteryAnomalies_def isTempBandCode_def split: option.splits if_splits)

lemma house_not_band: "\<forall>a \<in> set (houseAnomalies T zones now). \<not> isTempBandCode (code a)"
  by (auto simp: houseAnomalies_def isTempBandCode_def Let_def)

lemma filter_none: "\<forall>a \<in> set xs. \<not> P a \<Longrightarrow> filter (\<lambda>a. Q a \<and> P a) xs = []"
  by (induction xs) auto

lemma zoneAnomalies_band:
  "filter (\<lambda>a. anomalyZoneId a = zid \<and> isTempBandCode (code a)) (zoneAnomalies T m now z)
     = (if zoneId z = zid then tempRangeAnomalies T z now else [])"
proof -
  have "filter (\<lambda>a. anomalyZoneId a = zid \<and> isTempBandCode (code a)) (tempRangeAnomalies T z now)
      = (if zoneId z = zid then tempRangeAnomalies T z now else [])"
    using tempRange_band [of T z now] by (auto simp: filter_id_conv filter_empty_conv)
  then show ?thesis
    unfolding zoneAnomalies_def
    by (simp add: filter_none rate_not_band coverage_not_band spread_not_band battery_not_band)
qed

lemma detectAnomalies_band:
  assumes "distinct (map zoneId zones)" and "z \<in> set zones"
  shows "filter (\<lambda>a. anomalyZoneId a = zoneId z \<and> isTempBandCode (code a))
           (detectAnomalies zones m ov now)
         = tempRangeAnomalies (mergeThresholds DEFAULT_THRESHOLDS ov) z now"
proof -
  let ?T = "mergeThresholds DEFAULT_THRESHOLDS ov"
  let ?P = "\<lambda>a. anomalyZoneId a = zoneId z \<and> isTempBandCode (code a)"
  from assms have d: "distinct zones" by (simp add: distinct_map)
  from assms have inj: "\<forall>x \<in> set zones. zoneId x = zoneId z \<longleftrightarrow> x = z"
    by (auto simp: distinct_map inj_on_def)
  have "filter ?P (concat (map (zoneAnomalies ?T m now) zones))
      = concat (map (\<lambda>x. filter ?P (zoneAnomalies ?T m now x)) zones)"
    by (simp add: filter_concat comp_def)
  also have "\<dots> = concat (map (\<lambda>x. if x = z then tempRangeAnomalies ?T z now else []) zones)"
    using inj by (intro arg_cong [where f = concat] map_cong) (auto simp: zoneAnomalies_band)
  also have "\<dots> = tempRangeAnomalies ?T z now"
    by (rule concat_map_single [OF d assms(2)])
  finally show ?thesis
    unfolding detectAnomalies_def Let_def by (simp add: filter_none house_not_band)
qed

text \<open>
  C6. In the output of \<open>detectAnomalies\<close> over zones with distinct identifiers, the
  temperature-band anomalies of a zone with temperature \<open>t\<close> are at most one, chosen in
  the order danger-low, warning-low, danger-high, warning-high under any threshold
  overrides: below \<open>dangerLowF\<close> it is the single \<open>TEMP_DANGER_LOW\<close> anomaly of level danger
  (and no \<open>TEMP_LOW\<close> one), and so on down the chain.
\<close>

theorem detectAnomalies_one_temperature_band:
  assumes "distinct (map zoneId zones)" and "z \<in> set zones"
    and "currentTempF z now = Some t"
  shows "length (filter (\<lambda>a. anomalyZoneId a = zoneId z \<and> isTempBandCode (code a))
           (detectAnomalies zones m ov now)) \<le> 1 \<and>
    filter (\<lambda>a. anomalyZoneId a = zoneId z \<and> isTempBandCode (code a))
           (detectAnomalies zones m ov now)
      = (if t < dangerLowF (mergeThresholds DEFAULT_THRESHOLDS ov) then
           [\<lparr>level = Danger, anomalyZoneId = zoneId z, code = ''TEMP_DANGER_LOW'',
             anomalyValue = Some (Finite t)\<rparr>]
         else if t < comfortLowF (mergeThresholds DEFAULT_THRESHOLDS ov) then
           [\<lparr>level = Warning, anomalyZoneId = zoneId z, code = ''TEMP_LOW'',
             anomalyValue = Some (Finite t)\<rparr>]
         else if t > dangerHighF (mergeThresholds DEFAULT_THRESHOLDS ov) then
           [\<lparr>level = Danger, anomalyZoneId = zoneId z, code = ''TEMP_DANGER_HIGH'',
             anomalyValue = Some (Finite t)\<rparr>]
         else if t > comfortHighF (mergeThresholds DEFAULT_THRESHOLDS ov) then
           [\<lparr>level = Warning, anomalyZoneId = zoneId z, code = ''TEMP_HIGH'',
             anomalyValue = Some (Finite t)\<rparr>]
         else [])"
  unfolding detectAnomalies_band [OF assms(1,2)]
  using assms(3) by (simp add: tempRangeAnomalies_def)

theorem detectAnomalies_one_temperature_band_witness:
  "distinct (map zoneId [zoneAt ''nursery'' [] 58, zoneAt ''den'' [] 70]) \<and>
   zoneAt ''nursery'' [] 58 \<in> set [zoneAt ''nursery'' [] 58, zoneAt ''den'' [] 70] \<and>
   currentTempF (zoneAt ''nursery'' [] 58) 0 = Some 58 \<and>
   filter (\<lambda>a. anomalyZoneId a = ''nursery'' \<and> isTempBandCode (code a))
     (detectAnomalies [zoneAt ''nursery'' [] 58, zoneAt ''den'' [] 70] Map.empty
        (noOverrides\<lparr>ovDangerLowF := Some 60\<rparr>) 0)
     = [\<lparr>level = Danger, anomalyZoneId = ''nursery'', code = ''TEMP_DANGER_LOW'',
         anomalyValue = Some (Finite 58)\<rparr>]"
proof -
  have d: "distinct (map zoneId [zoneAt ''nursery'' [] 58, zoneAt ''den'' [] 70])"
    by (simp add: zoneId_zoneAt)
  have i: "zoneAt ''nursery'' [] 58 \<in> set [zoneAt ''nursery'' [] 58, zoneAt ''den'' [] 70]"
    by simp
  have c: "currentTempF (zoneAt ''nursery'' [] 58) 0 = Some 58"
    by (rule currentTempF_zoneAt)
  from detectAnomalies_one_temperature_band [OF d i c, of Map.empty
      "noOverrides\<lparr>ovDangerLowF := Some 60\<rparr>"] d i c
  show ?thesis
    by (simp add: zoneId_zoneAt mergeThresholds_def orDefault_def noOverrides_def
        DEFAULT_THRESHOLDS_def)
qed

section \<open>Rounding to binary64\<close>

lemma floorLog2_numeral:
  "floorLog2 (numeral k) a =
     (if a \<ge> 2 then floorLog2 (pred_numeral k) (a / 2) + 1
      else if a < 1 then floorLog2 (pred_numeral k) (a * 2) - 1
      else 0)"
proof -
  have "floorLog2 (numeral k) a = floorLog2 (Suc (pred_numeral k)) a"
    by (simp only: numeral_eq_Suc)
  then show ?thesis by (simp only: floorLog2.simps)
qed

lemma fl_finite:
  "\<not> \<bar>x\<bar> \<ge> pow2 1024 \<Longrightarrow> \<not> roundAt (binaryExponent \<bar>x\<bar> - 52) \<bar>x\<bar> \<ge> pow2 1024 \<Longrightarrow>
     fl x = Finite (if x < 0 then - roundAt (binaryExponent \<bar>x\<bar> - 52) \<bar>x\<bar>
                    else roundAt (binaryExponent \<bar>x\<bar> - 52) \<bar>x\<bar>)"
  by (simp add: fl_def)

lemma fl_zero: "fl 0 = Finite 0"
  by (simp add: fl_def roundAt_def roundEven_def pow2_def)

lemmas fl_literal =
  fl_zero
  fl_finite [of 1]
  fl_finite [of "- 1"]
  fl_finite [of "numeral a"]
  fl_finite [of "- numeral a"]
  fl_finite [of "numeral a / numeral b"]
  fl_finite [of "- (numeral a / numeral b)"]
  fl_finite [of "1 / numeral b"]
  fl_finite [of "- (1 / numeral b)"]
  for a b

lemmas fl_parts = roundAt_def binaryExponent_def pow2_def roundEven_def floorLog2_numeral

lemma fl_one: "fl 1 = Finite 1"
  by (simp add: fl_literal fl_parts)

lemma pow2_powr: "pow2 q = 2 powr (real_of_int q)"
proof (cases "q \<ge> 0")
  case True
  then have "2 powr real_of_int q = 2 powr real (nat q)" by simp
  also have "\<dots> = 2 ^ nat q" by (simp add: powr_realpow)
  finally show ?thesis using True by (simp add: pow2_def)
next
  case False
  then have "2 powr real_of_int q = 2 powr (- real (nat (- q)))" by simp
  also have "\<dots> = 1 / 2 powr real (nat (- q))" by (simp add: powr_minus inverse_eq_divide)
  also have "\<dots> = 1 / 2 ^ nat (- q)" by (simp add: powr_realpow)
  finally show ?thesis using False by (simp add: pow2_def)
qed

lemma pow2_pos: "0 < pow2 q"
  by (simp add: pow2_powr)

lemma pow2_add: "pow2 (a + b) = pow2 a * pow2 b"
  by (simp add: pow2_powr powr_add)

lemma pow2_mono: "a \<le> b \<Longrightarrow> pow2 a \<le> pow2 b"
  by (simp add: pow2_powr)

lemma roundEven_ge: "of_int n \<le> x \<Longrightarrow> n \<le> roundEven x"
proof -
  assume "of_int n \<le> x"
  then have "n \<le> \<lfloor>x\<rfloor>" by (simp add: le_floor_iff)
  then show ?thesis by (auto simp: roundEven_def)
qed

lemma roundAt_nonneg: "0 \<le> a \<Longrightarrow> 0 \<le> roundAt q a"
proof -
  assume "0 \<le> a"
  then have "of_int 0 \<le> a / pow2 q" using pow2_pos [of q] by simp
  then have "0 \<le> roundEven (a / pow2 q)" by (rule roundEven_ge)
  then show ?thesis using pow2_pos [of q] by (simp add: roundAt_def)
qed

lemma roundAt_zero: "roundAt q 0 = 0"
  by (simp add: roundAt_def roundEven_def)

lemma fl_nonneg: "0 \<le> x \<Longrightarrow> isNonNegative (fl x)"
  using roundAt_nonneg [of "\<bar>x\<bar>" "binaryExponent \<bar>x\<bar> - 52"] pow2_pos [of 1024]
  by (cases "x = 0") (auto simp: fl_def roundAt_zero)

lemma fl_nonpos: "x \<le> 0 \<Longrightarrow> isNonNegative (jsNeg (fl x))"
  using roundAt_nonneg [of "\<bar>x\<bar>" "binaryExponent \<bar>x\<bar> - 52"] pow2_pos [of 1024]
  by (cases "x = 0") (auto simp: fl_def roundAt_zero)

lemma fl_not_NaN: "\<not> isNaN (fl x)"
  by (simp add: fl_def)

lemma floorLog2_lower: "1 \<le> a \<Longrightarrow> 0 \<le> floorLog2 n a \<and> pow2 (floorLog2 n a) \<le> a"
proof (induction n arbitrary: a)
  case 0
  then show ?case by (simp add: pow2_def)
next
  case (Suc n)
  show ?case
  proof (cases "a \<ge> 2")
    case True
    then have "1 \<le> a / 2" by simp
    from Suc.IH [OF this] have e: "0 \<le> floorLog2 n (a / 2)"
      and p: "pow2 (floorLog2 n (a / 2)) \<le> a / 2" by simp_all
    have "pow2 1 = 2" by (simp add: pow2_def)
    then have "pow2 (floorLog2 n (a / 2) + 1) = pow2 (floorLog2 n (a / 2)) * 2"
      by (simp add: pow2_add)
    with p e True show ?thesis by simp
  next
    case False
    with Suc.prems show ?thesis by (simp add: pow2_def)
  qed
qed

lemma fl_ge_one:
  assumes "1 \<le> x"
  shows "fl x = PosInfinity \<or> (\<exists>y. fl x = Finite y \<and> 1 \<le> y)"
proof -
  let ?e = "binaryExponent \<bar>x\<bar>"
  from assms have ax: "\<bar>x\<bar> = x" by simp
  have "pow2 (- 1022) \<le> 1" using pow2_mono [of "- 1022" 0] by (simp add: pow2_def)
  with assms have "\<not> x < pow2 (- 1022)" by simp
  then have e: "?e = floorLog2 1100 x" by (simp add: binaryExponent_def ax)
  from floorLog2_lower [OF assms, of 1100] e have e0: "0 \<le> ?e" and lo: "pow2 ?e \<le> x"
    by simp_all
  have split: "pow2 ?e = pow2 52 * pow2 (?e - 52)"
    using pow2_add [of 52 "?e - 52"] by simp
  have "pow2 52 \<le> x / pow2 (?e - 52)"
    using lo pow2_pos [of "?e - 52"] unfolding split by (simp add: field_simps)
  moreover have "pow2 52 = of_int (2 ^ 52)" by (simp add: pow2_def)
  ultimately have "of_int (2 ^ 52) \<le> x / pow2 (?e - 52)" by simp
  then have "2 ^ 52 \<le> roundEven (x / pow2 (?e - 52))" by (rule roundEven_ge)
  then have "of_int (2 ^ 52) \<le> (of_int (roundEven (x / pow2 (?e - 52))) :: real)"
    by (simp only: of_int_le_iff)
  then have "pow2 52 * pow2 (?e - 52) \<le> roundAt (?e - 52) x"
    using pow2_pos [of "?e - 52"] by (simp add: roundAt_def pow2_def)
  with split have "pow2 ?e \<le> roundAt (?e - 52) x" by simp
  moreover have "1 \<le> pow2 ?e" using pow2_mono [OF e0] by (simp add: pow2_def)
  ultimately have r: "1 \<le> roundAt (?e - 52) x" by simp
  from assms r show ?thesis by (auto simp: fl_def ax)
qed

lemma floorLog2_bounds:
  "pow2 (- int n) \<le> a \<Longrightarrow> a < pow2 (int n + 1) \<Longrightarrow>
     pow2 (floorLog2 n a) \<le> a \<and> a < pow2 (floorLog2 n a + 1)"
proof (induction n arbitrary: a)
  case 0
  then show ?case by (simp add: pow2_def)
next
  case (Suc n)
  have two: "pow2 1 = 2" by (simp add: pow2_def)
  have half: "pow2 (- 1) = 1 / 2" by (simp add: pow2_def)
  show ?case
  proof (cases "a \<ge> 2")
    case True
    have "pow2 (- int n) \<le> pow2 0" by (rule pow2_mono) simp
    then have lo: "pow2 (- int n) \<le> a / 2" using True by (simp add: pow2_def)
    have "pow2 (int (Suc n) + 1) = pow2 (int n + 1) * 2"
      using pow2_add [of "int n + 1" 1] two by (simp add: add.commute add.left_commute)
    with Suc.prems(2) have hi: "a / 2 < pow2 (int n + 1)" by simp
    from Suc.IH [OF lo hi]
    have "pow2 (floorLog2 n (a / 2)) \<le> a / 2" and "a / 2 < pow2 (floorLog2 n (a / 2) + 1)"
      by simp_all
    moreover have "pow2 (floorLog2 n (a / 2) + 1) = pow2 (floorLog2 n (a / 2)) * 2"
      using pow2_add [of "floorLog2 n (a / 2)" 1] two by simp
    moreover have "pow2 (floorLog2 n (a / 2) + 1 + 1) = pow2 (floorLog2 n (a / 2) + 1) * 2"
      using pow2_add [of "floorLog2 n (a / 2) + 1" 1] two by simp
    ultimately show ?thesis using True by simp
  next
    case False
    show ?thesis
    proof (cases "a < 1")
      case True
      have "- int (Suc n) = - int n + (- 1)" by simp
      then have "pow2 (- int (Suc n)) = pow2 (- int n) * (1 / 2)"
        using pow2_add [of "- int n" "- 1"] half by (simp only:)
      with Suc.prems(1) have lo: "pow2 (- int n) \<le> a * 2" by simp
      have "pow2 1 \<le> pow2 (int n + 1)" by (rule pow2_mono) simp
      with two True have hi: "a * 2 < pow2 (int n + 1)" by simp
      from Suc.IH [OF lo hi]
      have "pow2 (floorLog2 n (a * 2)) \<le> a * 2" and "a * 2 < pow2 (floorLog2 n (a * 2) + 1)"
        by simp_all
      moreover have "pow2 (floorLog2 n (a * 2)) = pow2 (floorLog2 n (a * 2) - 1) * 2"
        using pow2_add [of "floorLog2 n (a * 2) - 1" 1] two by simp
      moreover have "pow2 (floorLog2 n (a * 2) + 1) = pow2 (floorLog2 n (a * 2) - 1 + 1) * 2"
        using pow2_add [of "floorLog2 n (a * 2)" 1] two by simp
      ultimately show ?thesis using True False by simp
    next
      case False
      with \<open>\<not> a \<ge> 2\<close> show ?thesis by (simp add: pow2_def)
    qed
  qed
qed

text \<open>
  In the range of the normal numbers the exponent found is the binary exponent: the
  fuel of \<open>binaryExponent\<close> suffices.
\<close>

lemma binaryExponent_bounds:
  assumes "pow2 (- 1022) \<le> a" and "a < pow2 1024"
  shows "pow2 (binaryExponent a) \<le> a \<and> a < pow2 (binaryExponent a + 1)"
proof -
  have "pow2 (- int 1100) \<le> pow2 (- 1022)" by (rule pow2_mono) simp
  with assms(1) have lo: "pow2 (- int 1100) \<le> a" by simp
  have "pow2 1024 \<le> pow2 (int 1100 + 1)" by (rule pow2_mono) simp
  with assms(2) have hi: "a < pow2 (int 1100 + 1)" by simp
  from assms(1) have "binaryExponent a = floorLog2 1100 a" by (simp add: binaryExponent_def)
  with floorLog2_bounds [OF lo hi] show ?thesis by simp
qed

lemma name_zoneAt: "name (zoneAt zid adj t) = zid"
  by (simp add: zoneAt_def mkZone_def)

section \<open>Rate of change of a constant series\<close>

lemma seventyPointOne_value:
  "seventyPointOne = Finite (2466424483427123 / 35184372088832)"
  by (simp add: seventyPointOne_def fl_literal fl_parts)

lemma constantSeries_window:
  "rateWindow constantSeries 30 = constantSeries"
  by (simp add: rateWindow_def Let_def constantSeries_def mkPoint_def seventyPointOne_value)

lemma constantSeries_xs:
  "regressionXs constantSeries = constantSeriesXs"
  by (simp add: regressionXs_def constantSeriesXs_def constantSeries_def mkPoint_def seventyPointOne_value fl_literal fl_parts)

lemma constantSeries_ys:
  "map rpTempF constantSeries = constantSeriesYs"
  by (simp add: constantSeriesYs_def constantSeries_def mkPoint_def seventyPointOne_value fl_literal fl_parts)

lemma constantSeries_length:
  "real (length constantSeriesXs) = 6"
  by (simp add: constantSeriesXs_def)

lemma constantSeries_sumX:
  "jsSum constantSeriesXs = Finite (5 / 4)"
  by (simp add: jsSum_def constantSeriesXs_def fl_literal fl_parts)

lemma constantSeries_sumY:
  "jsSum constantSeriesYs = Finite (3699636725140685 / 8796093022208)"
  by (simp add: jsSum_def constantSeriesYs_def fl_literal fl_parts)

lemma constantSeries_sumX2:
  "jsSum (map (\<lambda>x. jsMul x x) constantSeriesXs) = Finite (1720124857676231 / 4503599627370496)"
  by (simp add: jsSum_def constantSeriesXs_def fl_literal fl_parts)

lemma constantSeries_sumXY:
  "jsSum (map (\<lambda>(x, y). jsMul x y) (zip constantSeriesXs constantSeriesYs)) = Finite (6166061208567807 / 70368744177664)"
  by (simp add: jsSum_def constantSeriesXs_def constantSeriesYs_def fl_literal fl_parts)

lemma constantSeries_denom:
  "regressionDenom constantSeriesXs = Finite (1641937364145493 / 2251799813685248)"
  unfolding regressionDenom_def constantSeries_length constantSeries_sumX constantSeries_sumX2
  by (simp add: jsSub_def fl_literal fl_parts)

lemma constantSeries_slope:
  "regressionSlope constantSeriesXs constantSeriesYs = Finite (- (6176365203250967 / 39614081257132168796771975168))"
  unfolding regressionSlope_def constantSeries_length constantSeries_sumX constantSeries_sumY constantSeries_sumXY constantSeries_denom
  by (simp add: jsSub_def fl_literal fl_parts)

lemma constantSeries_meanX:
  "meanOf constantSeriesXs (length constantSeriesXs) = Finite (7505999378950827 / 36028797018963968)"
  unfolding meanOf_def constantSeries_length constantSeries_sumX
  by (simp add: fl_literal fl_parts)

lemma constantSeries_meanY:
  "meanOf constantSeriesYs (length constantSeriesXs) = Finite (4932848966854247 / 70368744177664)"
  unfolding meanOf_def constantSeries_length constantSeries_sumY
  by (simp add: fl_literal fl_parts)

lemma constantSeries_ssRes:
  "ssRes constantSeriesXs constantSeriesYs = Finite (1 / 309485009821345068724781056)"
  unfolding ssRes_def yHat_def constantSeries_slope constantSeries_meanX constantSeries_meanY
  by (simp add: jsSum_def jsSub_def jsSquare_def constantSeriesXs_def constantSeriesYs_def fl_literal fl_parts)

lemma constantSeries_ssTot:
  "ssTot constantSeriesXs constantSeriesYs = Finite (3 / 2475880078570760549798248448)"
  unfolding ssTot_def constantSeries_meanY
  by (simp add: jsSum_def jsSub_def jsSquare_def constantSeriesYs_def fl_literal fl_parts)

lemma constantSeries_r2:
  "regressionR2 constantSeriesXs constantSeriesYs = Finite (- (3752999689475413 / 2251799813685248))"
  unfolding regressionR2_def constantSeries_ssRes constantSeries_ssTot
  by (simp add: jsSub_def fl_literal fl_parts)

lemma constantSeries_result:
  "calcRateOfChange constantSeries 30 =
     Some \<lparr>ratePerHour = Finite 0,
           r2 = Finite (- (7507500578826617 / 4503599627370496)),
           direction = Stable\<rparr>"
  unfolding calcRateOfChange_def Let_def constantSeries_window constantSeries_xs constantSeries_ys constantSeries_denom constantSeries_slope constantSeries_r2
  by (simp add: constantSeries_def roundTo_def DEGENERATE_def STABLE_THRESHOLD_def fl_literal fl_parts)

lemma constantSeries_r2_literal:
  "fl (- (1667 / 1000)) = Finite (- (7507500578826617 / 4503599627370496))"
  by (simp add: fl_literal fl_parts)

text \<open>
  C1 fails on the code. Six points five minutes apart all read 70.1, so the total variance
  is 0; but \<open>sumY / n\<close> is computed as 70.10000000000001, the total sum of squares comes out
  positive, the test \<open>ssTot > 0\<close> passes, and the R-squared reported is -1.667, not 0.
\<close>

theorem calcRateOfChange_constant_series_r2:
  "list_all (\<lambda>p. rpTempF p = fl (701 / 10)) constantSeries \<and>
   jsLess (Finite 0) (ssTot (regressionXs constantSeries) (map rpTempF constantSeries)) \<and>
   calcRateOfChange constantSeries 30
     = Some \<lparr>ratePerHour = Finite 0, r2 = fl (- (1667 / 1000)), direction = Stable\<rparr>"
proof -
  have "list_all (\<lambda>p. rpTempF p = fl (701 / 10)) constantSeries"
    by (simp add: constantSeries_def mkPoint_def seventyPointOne_def)
  moreover have "jsLess (Finite 0) (ssTot (regressionXs constantSeries) (map rpTempF constantSeries))"
    unfolding constantSeries_xs constantSeries_ys constantSeries_ssTot by simp
  ultimately show ?thesis
    by (simp add: constantSeries_result constantSeries_r2_literal)
qed

section \<open>Uniformity score\<close>

lemma jsAdd_nonneg: "isNonNegative a \<Longrightarrow> isNonNegative b \<Longrightarrow> isNonNegative (jsAdd a b)"
  by (cases a; cases b) (auto intro: fl_nonneg)

lemma jsAdd_finite_not_NaN: "\<not> isNaN a \<Longrightarrow> \<not> isNaN (jsAdd a (Finite y))"
  by (cases a) (auto simp: fl_not_NaN)

lemma jsSquare_nonneg: "\<not> isNaN a \<Longrightarrow> isNonNegative (jsSquare a)"
  by (cases a) (auto simp: jsSquare_def signedInfinity_def intro: fl_nonneg)

lemma foldl_finite_not_NaN:
  "\<forall>v \<in> set vs. isFinite v \<Longrightarrow> \<not> isNaN acc \<Longrightarrow> \<not> isNaN (foldl jsAdd acc vs)"
proof (induction vs arbitrary: acc)
  case Nil
  then show ?case by simp
next
  case (Cons v vs)
  from Cons.prems(1) obtain y where v: "v = Finite y" by (cases v) auto
  from Cons.prems(2) have "\<not> isNaN (jsAdd acc v)" unfolding v by (rule jsAdd_finite_not_NaN)
  with Cons show ?case by simp
qed

lemma jsDiv_count_not_NaN: "\<not> isNaN a \<Longrightarrow> 0 < n \<Longrightarrow> \<not> isNaN (jsDiv a (Finite (real n)))"
  by (cases a) (auto simp: fl_not_NaN signedInfinity_def)

lemma meanTemp_not_NaN:
  assumes "\<forall>v \<in> set ts. isFinite v" and "ts \<noteq> []"
  shows "\<not> isNaN (meanTemp ts)"
proof -
  have "\<not> isNaN (jsSum ts)"
    unfolding jsSum_def by (rule foldl_finite_not_NaN [OF assms(1)]) simp
  then show ?thesis unfolding meanTemp_def using assms(2) by (intro jsDiv_count_not_NaN) auto
qed

lemma deviation_not_NaN: "\<not> isNaN m \<Longrightarrow> \<not> isNaN (jsSub (Finite t) m)"
  by (cases m) (auto simp: jsSub_def fl_not_NaN)

lemma foldl_squares_nonneg:
  assumes "\<not> isNaN m"
  shows "\<forall>v \<in> set vs. isFinite v \<Longrightarrow> isNonNegative acc \<Longrightarrow>
    isNonNegative (foldl (\<lambda>s t. jsAdd s (jsSquare (jsSub t m))) acc vs)"
proof (induction vs arbitrary: acc)
  case Nil
  then show ?case by simp
next
  case (Cons v vs)
  from Cons.prems(1) obtain t where v: "v = Finite t" by (cases v) auto
  have "isNonNegative (jsSquare (jsSub v m))"
    unfolding v by (rule jsSquare_nonneg) (rule deviation_not_NaN [OF assms])
  with Cons.prems(2) have "isNonNegative (jsAdd acc (jsSquare (jsSub v m)))"
    by (rule jsAdd_nonneg)
  with Cons show ?case by simp
qed

lemma jsDiv_count_nonneg: "isNonNegative a \<Longrightarrow> 0 < n \<Longrightarrow> isNonNegative (jsDiv a (Finite (real n)))"
  by (cases a) (auto simp: signedInfinity_def intro: fl_nonneg)

lemma jsSqrt_nonneg: "isNonNegative a \<Longrightarrow> isNonNegative (jsSqrt a)"
  by (cases a) (auto intro: fl_nonneg)

lemma stdDev_nonneg:
  assumes "\<forall>v \<in> set ts. isFinite v" and "ts \<noteq> []"
  shows "isNonNegative (stdDev ts)"
proof -
  have "isNonNegative (foldl (\<lambda>s t. jsAdd s (jsSquare (jsSub t (meanTemp ts)))) (Finite 0) ts)"
    by (rule foldl_squares_nonneg [OF meanTemp_not_NaN [OF assms] assms(1)]) simp
  then have "isNonNegative (variance ts)"
    unfolding variance_def using assms(2) by (intro jsDiv_count_nonneg) auto
  then show ?thesis unfolding stdDev_def by (rule jsSqrt_nonneg)
qed

lemma clamp_unit:
  "\<not> isNaN v \<Longrightarrow> \<exists>u. Math_max (Finite 0) (Math_min (Finite 1) v) = Finite u \<and> 0 \<le> u \<and> u \<le> 1"
  by (cases v) auto

lemma ratio_not_NaN: "isNonNegative a \<Longrightarrow> t \<noteq> 0 \<Longrightarrow> \<not> isNaN (jsDiv a (Finite t))"
  by (cases a) (auto simp: fl_not_NaN signedInfinity_def)

lemma one_minus_not_NaN: "\<not> isNaN q \<Longrightarrow> \<not> isNaN (jsSub (Finite 1) q)"
  by (rule deviation_not_NaN)

lemma score_zero:
  assumes "sd = PosInfinity \<or> (\<exists>s. sd = Finite s \<and> t \<le> s)" and "0 < t"
  shows "Math_max (Finite 0) (Math_min (Finite 1) (jsSub (Finite 1) (jsDiv sd (Finite t)))) = Finite 0"
proof -
  have q: "jsDiv sd (Finite t) = PosInfinity \<or> (\<exists>y. jsDiv sd (Finite t) = Finite y \<and> 1 \<le> y)"
  proof (cases sd)
    case (Finite s)
    with assms have "1 \<le> s / t" by simp
    from fl_ge_one [OF this] Finite assms(2) show ?thesis by simp
  qed (use assms in \<open>auto simp: signedInfinity_def\<close>)
  then show ?thesis
  proof
    assume "jsDiv sd (Finite t) = PosInfinity"
    then show ?thesis by (simp add: jsSub_def)
  next
    assume "\<exists>y. jsDiv sd (Finite t) = Finite y \<and> 1 \<le> y"
    then obtain y where y: "jsDiv sd (Finite t) = Finite y" and "1 \<le> y" by blast
    then have "1 - y \<le> 0" by simp
    from fl_nonpos [OF this] show ?thesis
      unfolding y by (cases "fl (1 - y)") (auto simp: jsSub_def)
  qed
qed

lemma foldl_zero_squares:
  "\<forall>v \<in> set vs. v = Finite c \<Longrightarrow>
     foldl (\<lambda>s t. jsAdd s (jsSquare (jsSub t (Finite c)))) (Finite 0) vs = Finite 0"
  by (induction vs) (auto simp: jsSquare_def jsSub_def fl_zero)

lemma stdDev_zero:
  assumes "\<forall>v \<in> set ts. v = Finite c" and "meanTemp ts = Finite c" and "ts \<noteq> []"
  shows "stdDev ts = Finite 0"
  using assms(3)
  by (simp add: stdDev_def variance_def assms(2) foldl_zero_squares [OF assms(1)] fl_zero)

lemma score_one:
  "t \<noteq> 0 \<Longrightarrow>
     Math_max (Finite 0) (Math_min (Finite 1) (jsSub (Finite 1) (jsDiv (Finite 0) (Finite t))))
       = Finite 1"
  by (simp add: jsSub_def fl_zero fl_one)

lemma sqrt_sixAlike: "sqrt (1 / 4951760157141521099596496896) = 1 / 70368744177664"
  by (rule real_sqrt_unique) (simp_all add: power2_eq_square)

lemma twoApart_reported:
  "reportedTemps twoApart = [Finite 70, Finite 72]"
  by (simp add: reportedTemps_def twoApart_def)

lemma twoApart_mean:
  "meanTemp (reportedTemps twoApart) = Finite 71"
  unfolding twoApart_reported
  by (simp add: meanTemp_def jsSum_def signedInfinity_def fl_literal fl_parts)

lemma twoApart_variance:
  "variance (reportedTemps twoApart) = Finite 1"
  unfolding variance_def twoApart_mean
  unfolding twoApart_reported
  by (simp add: jsSub_def jsSquare_def fl_literal fl_parts)

lemma twoApart_stdDev:
  "stdDev (reportedTemps twoApart) = Finite 1"
  unfolding stdDev_def twoApart_variance
  by (simp add: fl_literal fl_parts)

lemma twoApart_score:
  "calcUniformityScore twoApart (Finite 2) = Some (Finite (1 / 2))"
  unfolding calcUniformityScore_def twoApart_stdDev
  by (simp add: twoApart_reported jsSub_def fl_literal fl_parts)

lemma sixAlike_reported:
  "reportedTemps sixAlike = [seventyPointOne, seventyPointOne, seventyPointOne, seventyPointOne, seventyPointOne, seventyPointOne]"
  by (simp add: reportedTemps_def sixAlike_def)

lemma sixAlike_mean:
  "meanTemp (reportedTemps sixAlike) = Finite (4932848966854247 / 70368744177664)"
  unfolding sixAlike_reported
  by (simp add: meanTemp_def jsSum_def signedInfinity_def seventyPointOne_value fl_literal fl_parts)

lemma sixAlike_variance:
  "variance (reportedTemps sixAlike) = Finite (1 / 4951760157141521099596496896)"
  unfolding variance_def sixAlike_mean
  unfolding sixAlike_reported
  by (simp add: jsSub_def jsSquare_def seventyPointOne_value fl_literal fl_parts)

lemma sixAlike_stdDev:
  "stdDev (reportedTemps sixAlike) = Finite (1 / 70368744177664)"
  unfolding stdDev_def sixAlike_variance
  by (simp add: sqrt_sixAlike fl_literal fl_parts)

lemma sixAlike_score:
  "calcUniformityScore sixAlike (Finite 2) = Some (Finite (140737488355327 / 140737488355328))"
  unfolding calcUniformityScore_def sixAlike_stdDev
  by (simp add: sixAlike_reported jsSub_def fl_literal fl_parts)

lemma withInfinity_reported:
  "reportedTemps withInfinity = [PosInfinity, Finite 70]"
  by (simp add: reportedTemps_def withInfinity_def)

lemma withInfinity_mean:
  "meanTemp (reportedTemps withInfinity) = PosInfinity"
  unfolding withInfinity_reported
  by (simp add: meanTemp_def jsSum_def signedInfinity_def fl_literal fl_parts)

lemma withInfinity_variance:
  "variance (reportedTemps withInfinity) = NaN"
  unfolding variance_def withInfinity_mean
  unfolding withInfinity_reported
  by (simp add: jsSub_def jsSquare_def fl_literal fl_parts)

lemma withInfinity_stdDev:
  "stdDev (reportedTemps withInfinity) = NaN"
  unfolding stdDev_def withInfinity_variance
  by (simp add: fl_literal fl_parts)

lemma withInfinity_score:
  "calcUniformityScore withInfinity (Finite 2) = Some (NaN)"
  unfolding calcUniformityScore_def withInfinity_stdDev
  by (simp add: withInfinity_reported jsSub_def fl_literal fl_parts)

lemma twoAlike_reported:
  "reportedTemps twoAlike = [Finite 70, Finite 70]"
  by (simp add: reportedTemps_def twoAlike_def)

lemma twoAlike_mean:
  "meanTemp (reportedTemps twoAlike) = Finite 70"
  unfolding twoAlike_reported
  by (simp add: meanTemp_def jsSum_def signedInfinity_def fl_literal fl_parts)

lemma twoAlike_variance:
  "variance (reportedTemps twoAlike) = Finite 0"
  unfolding variance_def twoAlike_mean
  unfolding twoAlike_reported
  by (simp add: jsSub_def jsSquare_def fl_literal fl_parts)

lemma twoAlike_stdDev:
  "stdDev (reportedTemps twoAlike) = Finite 0"
  unfolding stdDev_def twoAlike_variance
  by (simp add: fl_literal fl_parts)

lemma twoAlike_score:
  "calcUniformityScore twoAlike (Finite 2) = Some (Finite 1)"
  unfolding calcUniformityScore_def twoAlike_stdDev
  by (simp add: twoAlike_reported jsSub_def fl_literal fl_parts)

lemma oneReported_reported:
  "reportedTemps oneReported = [Finite 70]"
  by (simp add: reportedTemps_def oneReported_def)

lemma oneReported_score:
  "calcUniformityScore oneReported (Finite 2) = None"
  by (simp add: calcUniformityScore_def oneReported_reported)

lemma twoAlike_score_tolerance_0:
  "calcUniformityScore twoAlike (Finite 0) = Some NaN"
  unfolding calcUniformityScore_def twoAlike_stdDev
  by (simp add: twoAlike_reported jsSub_def signedInfinity_def)

text \<open>
  C3 (as the code has it). With fewer than two reported temperatures the result is
  \<open>null\<close>. Otherwise, when the reported temperatures are finite and the tolerance is
  not 0, the score is a number from 0 to 1; it is 1 when every temperature equals the mean
  as computed, and for a positive tolerance it is 0 when the standard deviation as
  computed is the tolerance or more.
\<close>

theorem calcUniformityScore_range:
  "(length (reportedTemps temperatures) < 2 \<longrightarrow> calcUniformityScore temperatures tol = None) \<and>
   (2 \<le> length (reportedTemps temperatures) \<and> list_all isFinite (reportedTemps temperatures) \<and> t \<noteq> 0 \<longrightarrow>
      (\<exists>u. calcUniformityScore temperatures (Finite t) = Some (Finite u) \<and> 0 \<le> u \<and> u \<le> 1 \<and>
         (list_all (\<lambda>v. v = meanTemp (reportedTemps temperatures)) (reportedTemps temperatures)
            \<longrightarrow> u = 1) \<and>
         (0 < t \<and> (stdDev (reportedTemps temperatures) = PosInfinity \<or>
                    (\<exists>s. stdDev (reportedTemps temperatures) = Finite s \<and> t \<le> s))
            \<longrightarrow> u = 0)))"
proof (intro conjI impI)
  assume "length (reportedTemps temperatures) < 2"
  then show "calcUniformityScore temperatures tol = None"
    by (simp add: calcUniformityScore_def)
next
  let ?rs = "reportedTemps temperatures"
  let ?score = "Math_max (Finite 0) (Math_min (Finite 1)
      (jsSub (Finite 1) (jsDiv (stdDev ?rs) (Finite t))))"
  assume a: "2 \<le> length ?rs \<and> list_all isFinite ?rs \<and> t \<noteq> 0"
  then have ne: "?rs \<noteq> []" and fin: "\<forall>v \<in> set ?rs. isFinite v" and t: "t \<noteq> 0"
    by (auto simp: list_all_iff)
  from a have e: "calcUniformityScore temperatures (Finite t) = Some ?score"
    by (simp add: calcUniformityScore_def)
  have "\<not> isNaN (jsSub (Finite 1) (jsDiv (stdDev ?rs) (Finite t)))"
    by (intro one_minus_not_NaN ratio_not_NaN stdDev_nonneg fin ne t)
  from clamp_unit [OF this] obtain u where u: "?score = Finite u" "0 \<le> u" "u \<le> 1" by blast
  have one: "u = 1" if eq: "list_all (\<lambda>v. v = meanTemp ?rs) ?rs"
  proof -
    from ne obtain v where v: "v \<in> set ?rs" by (cases ?rs) auto
    with fin obtain c where c: "v = Finite c" by (cases v) auto
    from eq v c have m: "meanTemp ?rs = Finite c" by (auto simp: list_all_iff)
    with eq have "\<forall>v \<in> set ?rs. v = Finite c" by (auto simp: list_all_iff)
    from stdDev_zero [OF this m ne] score_one [OF t] u(1) show ?thesis by simp
  qed
  have zero: "u = 0"
    if "0 < t \<and> (stdDev ?rs = PosInfinity \<or> (\<exists>s. stdDev ?rs = Finite s \<and> t \<le> s))"
    using score_zero [of "stdDev ?rs" t] that u(1) by simp
  show "\<exists>u. calcUniformityScore temperatures (Finite t) = Some (Finite u) \<and> 0 \<le> u \<and> u \<le> 1 \<and>
         (list_all (\<lambda>v. v = meanTemp ?rs) ?rs \<longrightarrow> u = 1) \<and>
         (0 < t \<and> (stdDev ?rs = PosInfinity \<or> (\<exists>s. stdDev ?rs = Finite s \<and> t \<le> s))
            \<longrightarrow> u = 0)"
  proof (intro exI [of _ u] conjI impI)
    show "calcUniformityScore temperatures (Finite t) = Some (Finite u)" using e u(1) by simp
    show "0 \<le> u" and "u \<le> 1" by (rule u)+
    show "u = 1" if "list_all (\<lambda>v. v = meanTemp ?rs) ?rs" using that by (rule one)
    show "u = 0"
      if "0 < t \<and> (stdDev ?rs = PosInfinity \<or> (\<exists>s. stdDev ?rs = Finite s \<and> t \<le> s))"
      using that by (rule zero)
  qed
qed

theorem calcUniformityScore_range_witness:
  "calcUniformityScore oneReported (Finite 2) = None \<and>
   calcUniformityScore twoAlike (Finite 2) = Some (Finite 1) \<and>
   calcUniformityScore twoApart (Finite 1) = Some (Finite 0)"
proof -
  have a: "calcUniformityScore oneReported (Finite 2) = None"
    using calcUniformityScore_range [of oneReported "Finite 2" 2]
    by (simp add: oneReported_reported)
  from calcUniformityScore_range [of twoAlike "Finite 2" 2]
  obtain u where "calcUniformityScore twoAlike (Finite 2) = Some (Finite u)"
    and "list_all (\<lambda>v. v = meanTemp (reportedTemps twoAlike)) (reportedTemps twoAlike)
           \<longrightarrow> u = 1"
    by (auto simp: twoAlike_reported)
  then have b: "calcUniformityScore twoAlike (Finite 2) = Some (Finite 1)"
    by (simp add: twoAlike_mean) (simp add: twoAlike_reported)
  from calcUniformityScore_range [of twoApart "Finite 1" 1]
  obtain u where "calcUniformityScore twoApart (Finite 1) = Some (Finite u)"
    and "0 < (1::real) \<and> (stdDev (reportedTemps twoApart) = PosInfinity \<or>
          (\<exists>s. stdDev (reportedTemps twoApart) = Finite s \<and> 1 \<le> s)) \<longrightarrow> u = 0"
    by (auto simp: twoApart_reported)
  then have c: "calcUniformityScore twoApart (Finite 1) = Some (Finite 0)"
    by (simp add: twoApart_stdDev)
  from a b c show ?thesis by simp
qed

text \<open>
  C3 as stated fails. Zones at 70 and 72 have a spread of 2, the tolerance, and score
  0.5: the score measures the standard deviation, which is 1 here. Six zones all at 70.1
  score 0.9999999999999929: their mean is computed as 70.10000000000001. A zone that
  reports \<open>Infinity\<close> makes the score \<open>NaN\<close>, and so does a tolerance of 0 for equal
  temperatures.
\<close>

theorem calcUniformityScore_spread_at_tolerance:
  "calcUniformityScore twoApart (Finite 2) = Some (Finite (1 / 2)) \<and>
   calcUniformityScore sixAlike (Finite 2)
     = Some (Finite (140737488355327 / 140737488355328)) \<and>
   calcUniformityScore withInfinity (Finite 2) = Some NaN \<and>
   calcUniformityScore twoAlike (Finite 0) = Some NaN"
  by (simp add: twoApart_score sixAlike_score withInfinity_score twoAlike_score_tolerance_0)

section \<open>Rounding at the function boundary\<close>

lemma roundTo_isRoundedTo:
  assumes "0 < m"
  shows "isRoundedTo m v (roundTo m v)"
proof (cases "jsMul v (Finite m)")
  case (Finite s)
  have "\<bar>of_int \<lfloor>s + 1 / 2\<rfloor> - s\<bar> \<le> 1 / 2" by linarith
  with Finite assms show ?thesis
    by (auto simp: isRoundedTo_def roundTo_def intro!: exI [of _ "\<lfloor>s + 1 / 2\<rfloor>"])
next
  case PosInfinity
  with assms show ?thesis by (simp add: isRoundedTo_def roundTo_def signedInfinity_def)
next
  case NegInfinity
  with assms show ?thesis by (simp add: isRoundedTo_def roundTo_def signedInfinity_def)
next
  case NaN
  then show ?thesis by (simp add: isRoundedTo_def roundTo_def)
qed

lemma calcRateOfChange_SomeD:
  assumes "calcRateOfChange series w = Some r"
  shows "ratePerHour r =
           roundTo 100 (regressionSlope (regressionXs (rateWindow series w))
             (map rpTempF (rateWindow series w)))"
    and "r2 r =
           roundTo 1000 (regressionR2 (regressionXs (rateWindow series w))
             (map rpTempF (rateWindow series w)))"
  using assms unfolding calcRateOfChange_def Let_def
  by (auto split: if_splits)

lemma map_snd_coveredZones: "map snd (coveredZones zones now) = zoneTemps zones now"
  by (induction zones)
    (auto simp: coveredZones_def zoneTemps_def List.map_filter_simps split: option.splits)

lemma sorted_hd_Min:
  fixes xs :: "real list"
  assumes "sorted xs" and "xs \<noteq> []"
  shows "hd xs = Min (set xs)"
proof -
  from assms(2) obtain y ys where xs: "xs = y # ys" by (cases xs) auto
  with assms(1) have "\<forall>z \<in> set xs. y \<le> z" by auto
  then have "Min (set xs) = y" by (intro Min_eqI) (auto simp: xs)
  then show ?thesis by (simp add: xs)
qed

lemma sorted_last_Max:
  fixes xs :: "real list"
  assumes "sorted xs" and "xs \<noteq> []"
  shows "last xs = Max (set xs)"
proof -
  from assms have "\<forall>z \<in> set xs. z \<le> last xs"
    by (induction xs) (auto split: if_splits)
  moreover from assms(2) have "last xs \<in> set xs" by simp
  ultimately have "Max (set xs) = last xs" by (intro Max_eqI) auto
  then show ?thesis by simp
qed

lemma calcWholeHouseSpread_SomeD:
  assumes "calcWholeHouseSpread zones now = Some h"
  shows "spreadF h =
           roundTo 10 (jsSub (Finite (Max (set (zoneTemps zones now))))
                             (Finite (Min (set (zoneTemps zones now)))))"
proof -
  let ?cov = "coveredZones zones now"
  let ?sorted = "sort_key snd ?cov"
  from assms have len: "2 \<le> length ?cov"
    and h: "spreadF h = roundTo 10 (jsSub (Finite (snd (last ?sorted))) (Finite (snd (hd ?sorted))))"
    by (auto simp: calcWholeHouseSpread_def Let_def split: if_splits)
  from len have ne: "?sorted \<noteq> []" by (auto simp: length_0_conv [symmetric] simp del: length_0_conv)
  have s: "sorted (map snd ?sorted)" by (rule sorted_sort_key)
  have st: "set (map snd ?sorted) = set (zoneTemps zones now)"
    by (simp add: map_snd_coveredZones [symmetric])
  from ne have "snd (hd ?sorted) = hd (map snd ?sorted)" by (simp add: hd_map)
  also from s ne have "\<dots> = Min (set (map snd ?sorted))" by (intro sorted_hd_Min) auto
  finally have lo: "snd (hd ?sorted) = Min (set (zoneTemps zones now))" unfolding st .
  from ne have "snd (last ?sorted) = last (map snd ?sorted)" by (simp add: last_map)
  also from s ne have "\<dots> = Max (set (map snd ?sorted))" by (intro sorted_last_Max) auto
  finally have hi: "snd (last ?sorted) = Max (set (zoneTemps zones now))" unfolding st .
  from h lo hi show ?thesis by simp
qed

lemma sqrt_quarterApart: "sqrt (1 / 64) = 1 / 8"
  by (rule real_sqrt_unique) (simp_all add: power2_eq_square)

lemma risingSeries_window:
  "rateWindow risingSeries 30 = risingSeries"
  by (simp add: rateWindow_def Let_def risingSeries_def mkPoint_def)

lemma risingSeries_xs:
  "regressionXs risingSeries = risingSeriesXs"
  by (simp add: regressionXs_def risingSeriesXs_def risingSeries_def mkPoint_def fl_literal fl_parts)

lemma risingSeries_ys:
  "map rpTempF risingSeries = risingSeriesYs"
  by (simp add: risingSeriesYs_def risingSeries_def mkPoint_def fl_literal fl_parts)

lemma risingSeries_length:
  "real (length risingSeriesXs) = 3"
  by (simp add: risingSeriesXs_def)

lemma risingSeries_sumX:
  "jsSum risingSeriesXs = Finite (1 / 2)"
  by (simp add: jsSum_def risingSeriesXs_def fl_literal fl_parts)

lemma risingSeries_sumY:
  "jsSum risingSeriesYs = Finite 4"
  by (simp add: jsSum_def risingSeriesYs_def fl_literal fl_parts)

lemma risingSeries_sumX2:
  "jsSum (map (\<lambda>x. jsMul x x) risingSeriesXs) = Finite (2501999792983609 / 18014398509481984)"
  by (simp add: jsSum_def risingSeriesXs_def fl_literal fl_parts)

lemma risingSeries_sumXY:
  "jsSum (map (\<lambda>(x, y). jsMul x y) (zip risingSeriesXs risingSeriesYs)) = Finite (5254199565265579 / 4503599627370496)"
  by (simp add: jsSum_def risingSeriesXs_def risingSeriesYs_def fl_literal fl_parts)

lemma risingSeries_denom:
  "regressionDenom risingSeriesXs = Finite (3002399751580331 / 18014398509481984)"
  unfolding regressionDenom_def risingSeries_length risingSeries_sumX risingSeries_sumX2
  by (simp add: jsSub_def fl_literal fl_parts)

lemma risingSeries_slope:
  "regressionSlope risingSeriesXs risingSeriesYs = Finite (5066549580791807 / 562949953421312)"
  unfolding regressionSlope_def risingSeries_length risingSeries_sumX risingSeries_sumY risingSeries_sumXY risingSeries_denom
  by (simp add: jsSub_def fl_literal fl_parts)

lemma risingSeries_meanX:
  "meanOf risingSeriesXs (length risingSeriesXs) = Finite (6004799503160661 / 36028797018963968)"
  unfolding meanOf_def risingSeries_length risingSeries_sumX
  by (simp add: fl_literal fl_parts)

lemma risingSeries_meanY:
  "meanOf risingSeriesYs (length risingSeriesXs) = Finite (6004799503160661 / 4503599627370496)"
  unfolding meanOf_def risingSeries_length risingSeries_sumY
  by (simp add: fl_literal fl_parts)

lemma risingSeries_ssRes:
  "ssRes risingSeriesXs risingSeriesYs = Finite (6004799503160659 / 36028797018963968)"
  unfolding ssRes_def yHat_def risingSeries_slope risingSeries_meanX risingSeries_meanY
  by (simp add: jsSum_def jsSub_def jsSquare_def risingSeriesXs_def risingSeriesYs_def fl_literal fl_parts)

lemma risingSeries_ssTot:
  "ssTot risingSeriesXs risingSeriesYs = Finite (5254199565265579 / 1125899906842624)"
  unfolding ssTot_def risingSeries_meanY
  by (simp add: jsSum_def jsSub_def jsSquare_def risingSeriesYs_def fl_literal fl_parts)

lemma risingSeries_r2:
  "regressionR2 risingSeriesXs risingSeriesYs = Finite (8685513567071671 / 9007199254740992)"
  unfolding regressionR2_def risingSeries_ssRes risingSeries_ssTot
  by (simp add: jsSub_def fl_literal fl_parts)

lemma risingSeries_result:
  "calcRateOfChange risingSeries 30 =
     Some \<lparr>ratePerHour = Finite 9,
           r2 = Finite (2170735020392579 / 2251799813685248),
           direction = Rising\<rparr>"
  unfolding calcRateOfChange_def Let_def risingSeries_window risingSeries_xs risingSeries_ys risingSeries_denom risingSeries_slope risingSeries_r2
  by (simp add: risingSeries_def roundTo_def DEGENERATE_def STABLE_THRESHOLD_def fl_literal fl_parts)

lemma quarterApart_reported:
  "reportedTemps quarterApart = [Finite 70, Finite (281 / 4)]"
  by (simp add: reportedTemps_def quarterApart_def)

lemma quarterApart_mean:
  "meanTemp (reportedTemps quarterApart) = Finite (561 / 8)"
  unfolding quarterApart_reported
  by (simp add: meanTemp_def jsSum_def signedInfinity_def fl_literal fl_parts)

lemma quarterApart_variance:
  "variance (reportedTemps quarterApart) = Finite (1 / 64)"
  unfolding variance_def quarterApart_mean
  unfolding quarterApart_reported
  by (simp add: jsSub_def jsSquare_def fl_literal fl_parts)

lemma quarterApart_stdDev:
  "stdDev (reportedTemps quarterApart) = Finite (1 / 8)"
  unfolding stdDev_def quarterApart_variance
  by (simp add: sqrt_quarterApart fl_literal fl_parts)

lemma quarterApart_score:
  "calcUniformityScore quarterApart (Finite 2) = Some (Finite (15 / 16))"
  unfolding calcUniformityScore_def quarterApart_stdDev
  by (simp add: quarterApart_reported jsSub_def fl_literal fl_parts)

lemma r2_literal: "fl (964 / 1000) = Finite (2170735020392579 / 2251799813685248)"
  by (simp add: fl_literal fl_parts)

lemma risingSeries_r2_not_hundredths:
  "roundTo 100 (fl (964 / 1000)) \<noteq> fl (964 / 1000)"
  by (simp add: roundTo_def fl_literal fl_parts)

lemma unrounded_examples:
  "roundTo 100 (Finite (1 / 8)) \<noteq> Finite (1 / 8)"
  "roundTo 100 (Finite (561 / 8)) \<noteq> Finite (561 / 8)"
  "roundTo 100 (Finite (15 / 16)) \<noteq> Finite (15 / 16)"
  by (simp_all add: roundTo_def fl_literal fl_parts)

lemma calcZoneDelta_example_ab:
  "calcZoneDelta (zoneAt ''a'' [] (289 / 4)) (zoneAt ''b'' [] 70) 0
     = Some \<lparr>deltaF = fl (23 / 10), absF = fl (23 / 10), warmer = ''a''\<rparr>"
  by (simp add: calcZoneDelta_def currentTempF_zoneAt zoneId_zoneAt roundTo_def jsSub_def
      Let_def fl_literal fl_parts)

lemma coveredZones_example_ab:
  "coveredZones [zoneAt ''a'' [] (289 / 4), zoneAt ''b'' [] 70] 0
     = [(''a'', 289 / 4), (''b'', 70)]"
  by (simp add: coveredZones_def currentTempF_zoneAt name_zoneAt)

lemma zoneTemps_example_ab:
  "zoneTemps [zoneAt ''a'' [] (289 / 4), zoneAt ''b'' [] 70] 0 = [289 / 4, 70]"
  by (simp add: zoneTemps_def currentTempF_zoneAt)

lemma calcWholeHouseSpread_example_ab:
  "calcWholeHouseSpread [zoneAt ''a'' [] (289 / 4), zoneAt ''b'' [] 70] 0
     = Some \<lparr>spreadF = fl (23 / 10), coldest = ''b'', warmest = ''a''\<rparr>"
  unfolding calcWholeHouseSpread_def coveredZones_example_ab
  by (simp add: roundTo_def jsSub_def Let_def fl_literal fl_parts)

text \<open>
  C9 (as the code has it). \<open>calcRateOfChange\<close> returns the slope rounded to hundredths
  and R-squared rounded to thousandths; \<open>calcZoneDelta\<close> returns the difference of the two
  temperatures and its absolute value, and \<open>calcWholeHouseSpread\<close> the warmest minus the
  coldest temperature, rounded to tenths. Rounded means: the number nearest to a multiple
  of the step, the multiple being at most half a step away from the value.
\<close>

theorem thermal_outputs_rounded:
  "(calcRateOfChange series w = Some r \<longrightarrow>
      isRoundedTo 100
        (regressionSlope (regressionXs (rateWindow series w)) (map rpTempF (rateWindow series w)))
        (ratePerHour r) \<and>
      isRoundedTo 1000
        (regressionR2 (regressionXs (rateWindow series w)) (map rpTempF (rateWindow series w)))
        (r2 r)) \<and>
   (calcZoneDelta zoneA zoneB now = Some d \<longrightarrow>
      (\<exists>tA tB. currentTempF zoneA now = Some tA \<and> currentTempF zoneB now = Some tB \<and>
         isRoundedTo 10 (jsSub (Finite tA) (Finite tB)) (deltaF d) \<and>
         isRoundedTo 10 (jsAbs (jsSub (Finite tA) (Finite tB))) (absF d))) \<and>
   (calcWholeHouseSpread zones now = Some h \<longrightarrow>
      isRoundedTo 10
        (jsSub (Finite (Max (set (zoneTemps zones now)))) (Finite (Min (set (zoneTemps zones now)))))
        (spreadF h))"
proof (intro conjI impI)
  assume a: "calcRateOfChange series w = Some r"
  show "isRoundedTo 100
        (regressionSlope (regressionXs (rateWindow series w)) (map rpTempF (rateWindow series w)))
        (ratePerHour r)"
    unfolding calcRateOfChange_SomeD(1) [OF a] by (rule roundTo_isRoundedTo) simp
  show "isRoundedTo 1000
        (regressionR2 (regressionXs (rateWindow series w)) (map rpTempF (rateWindow series w)))
        (r2 r)"
    unfolding calcRateOfChange_SomeD(2) [OF a] by (rule roundTo_isRoundedTo) simp
next
  assume "calcZoneDelta zoneA zoneB now = Some d"
  then obtain tA tB where t: "currentTempF zoneA now = Some tA" "currentTempF zoneB now = Some tB"
    and df: "deltaF d = roundTo 10 (jsSub (Finite tA) (Finite tB))"
    and ab: "absF d = roundTo 10 (jsAbs (jsSub (Finite tA) (Finite tB)))"
    by (auto simp: calcZoneDelta_def Let_def split: option.splits)
  have "isRoundedTo 10 (jsSub (Finite tA) (Finite tB)) (deltaF d)"
    unfolding df by (rule roundTo_isRoundedTo) simp
  moreover have "isRoundedTo 10 (jsAbs (jsSub (Finite tA) (Finite tB))) (absF d)"
    unfolding ab by (rule roundTo_isRoundedTo) simp
  ultimately show "\<exists>tA tB. currentTempF zoneA now = Some tA \<and> currentTempF zoneB now = Some tB \<and>
         isRoundedTo 10 (jsSub (Finite tA) (Finite tB)) (deltaF d) \<and>
         isRoundedTo 10 (jsAbs (jsSub (Finite tA) (Finite tB))) (absF d)"
    using t by blast
next
  assume a: "calcWholeHouseSpread zones now = Some h"
  show "isRoundedTo 10
        (jsSub (Finite (Max (set (zoneTemps zones now)))) (Finite (Min (set (zoneTemps zones now)))))
        (spreadF h)"
    unfolding calcWholeHouseSpread_SomeD [OF a] by (rule roundTo_isRoundedTo) simp
qed

theorem thermal_outputs_rounded_witness:
  "calcRateOfChange risingSeries 30
     = Some \<lparr>ratePerHour = Finite 9, r2 = fl (964 / 1000), direction = Rising\<rparr> \<and>
   isRoundedTo 100 (regressionSlope risingSeriesXs risingSeriesYs) (Finite 9) \<and>
   isRoundedTo 1000 (regressionR2 risingSeriesXs risingSeriesYs) (fl (964 / 1000)) \<and>
   calcZoneDelta (zoneAt ''a'' [] (289 / 4)) (zoneAt ''b'' [] 70) 0
     = Some \<lparr>deltaF = fl (23 / 10), absF = fl (23 / 10), warmer = ''a''\<rparr> \<and>
   isRoundedTo 10 (jsSub (Finite (289 / 4)) (Finite 70)) (fl (23 / 10)) \<and>
   isRoundedTo 10 (jsAbs (jsSub (Finite (289 / 4)) (Finite 70))) (fl (23 / 10)) \<and>
   calcWholeHouseSpread [zoneAt ''a'' [] (289 / 4), zoneAt ''b'' [] 70] 0
     = Some \<lparr>spreadF = fl (23 / 10), coldest = ''b'', warmest = ''a''\<rparr> \<and>
   zoneTemps [zoneAt ''a'' [] (289 / 4), zoneAt ''b'' [] 70] 0 = [289 / 4, 70]"
proof -
  have e: "calcRateOfChange risingSeries 30
     = Some \<lparr>ratePerHour = Finite 9, r2 = fl (964 / 1000), direction = Rising\<rparr>"
    unfolding r2_literal by (rule risingSeries_result)
  note t = thermal_outputs_rounded
    [of risingSeries 30 "\<lparr>ratePerHour = Finite 9, r2 = fl (964 / 1000), direction = Rising\<rparr>"
        "zoneAt ''a'' [] (289 / 4)" "zoneAt ''b'' [] 70" 0
        "\<lparr>deltaF = fl (23 / 10), absF = fl (23 / 10), warmer = ''a''\<rparr>"
        "[zoneAt ''a'' [] (289 / 4), zoneAt ''b'' [] 70]"
        "\<lparr>spreadF = fl (23 / 10), coldest = ''b'', warmest = ''a''\<rparr>"]
  from t e have a: "isRoundedTo 100 (regressionSlope risingSeriesXs risingSeriesYs) (Finite 9)"
    and b: "isRoundedTo 1000 (regressionR2 risingSeriesXs risingSeriesYs) (fl (964 / 1000))"
    by (simp_all add: risingSeries_window risingSeries_xs risingSeries_ys)
  from t calcZoneDelta_example_ab obtain tA tB
    where ta: "currentTempF (zoneAt ''a'' [] (289 / 4)) 0 = Some tA"
      and tb: "currentTempF (zoneAt ''b'' [] 70) 0 = Some tB"
      and c0: "isRoundedTo 10 (jsSub (Finite tA) (Finite tB)) (fl (23 / 10))"
      and d0: "isRoundedTo 10 (jsAbs (jsSub (Finite tA) (Finite tB))) (fl (23 / 10))"
    by auto
  from ta tb have "tA = 289 / 4" and "tB = 70"
    unfolding currentTempF_zoneAt by simp_all
  with c0 d0 have c: "isRoundedTo 10 (jsSub (Finite (289 / 4)) (Finite 70)) (fl (23 / 10))"
    and d: "isRoundedTo 10 (jsAbs (jsSub (Finite (289 / 4)) (Finite 70))) (fl (23 / 10))"
    by simp_all
  from t calcWholeHouseSpread_example_ab
  have "isRoundedTo 10 (jsSub (Finite (289 / 4)) (Finite 70)) (fl (23 / 10))"
    by (simp add: zoneTemps_example_ab)
  with a b c d e calcZoneDelta_example_ab calcWholeHouseSpread_example_ab zoneTemps_example_ab
  show ?thesis by simp
qed

text \<open>
  C9 as stated fails. On the points (0 min, 0), (10 min, 1), (20 min, 3)
  \<open>calcRateOfChange\<close> returns an R-squared of 0.964, three decimals. \<open>estimateHeatLoss\<close>,
  \<open>rcPredict\<close> and \<open>calcUniformityScore\<close> round nothing: they return 0.125, 70.125 and
  0.9375 here. Rounding any of the four values to hundredths changes it.
\<close>

theorem calcRateOfChange_r2_thousandths:
  "calcRateOfChange risingSeries 30
     = Some \<lparr>ratePerHour = Finite 9, r2 = fl (964 / 1000), direction = Rising\<rparr> \<and>
   roundTo 100 (fl (964 / 1000)) \<noteq> fl (964 / 1000) \<and>
   estimateHeatLoss (577 / 8) 72 1 = 1 / 8 \<and>
   roundTo 100 (Finite (1 / 8)) \<noteq> Finite (1 / 8) \<and>
   rcPredict (561 / 8) 60 1 1 0 = 561 / 8 \<and>
   roundTo 100 (Finite (561 / 8)) \<noteq> Finite (561 / 8) \<and>
   calcUniformityScore quarterApart (Finite 2) = Some (Finite (15 / 16)) \<and>
   roundTo 100 (Finite (15 / 16)) \<noteq> Finite (15 / 16)"
proof -
  have r: "calcRateOfChange risingSeries 30
     = Some \<lparr>ratePerHour = Finite 9, r2 = fl (964 / 1000), direction = Rising\<rparr>"
    unfolding r2_literal by (rule risingSeries_result)
  have h: "estimateHeatLoss (577 / 8) 72 1 = 1 / 8"
    by (simp add: estimateHeatLoss_def)
  have p: "rcPredict (561 / 8) 60 1 1 0 = 561 / 8"
    by (simp add: rcPredict_def)
  show ?thesis
    by (intro conjI r risingSeries_r2_not_hundredths h p unrounded_examples quarterApart_score)
qed

section \<open>Adjacent-pair deltas\<close>

lemma pairKey_commute: "pairKey a b = pairKey b a"
  by (auto simp: pairKey_def)

lemma deltaInv_step:
  assumes "deltaInv zm st"
  shows "deltaInv zm (adjacencyStep zm now zone st adjId)"
proof (cases "pairKey (zoneId zone) adjId \<in> snd st")
  case True
  with assms show ?thesis by (simp add: adjacencyStep_def)
next
  case False
  with assms have fresh: "pairKey (zoneId zone) adjId \<notin> deltaKey ` set (fst st)"
    by (auto simp: deltaInv_def)
  show ?thesis
  proof (cases "zm adjId")
    case None
    with False assms show ?thesis
      by (auto simp: adjacencyStep_def deltaInv_def Let_def)
  next
    case (Some adjZone)
    with False assms fresh show ?thesis
      by (auto simp: adjacencyStep_def deltaInv_def Let_def deltaKey_def)
  qed
qed

lemma deltaInv_inner:
  "deltaInv zm st \<Longrightarrow> deltaInv zm (foldl (adjacencyStep zm now zone) st adjIds)"
proof (induction adjIds arbitrary: st)
  case Nil
  then show ?case by simp
next
  case (Cons adjId adjIds)
  from Cons.prems have "deltaInv zm (adjacencyStep zm now zone st adjId)"
    by (rule deltaInv_step)
  from Cons.IH [OF this] show ?case by simp
qed

lemma deltaInv_outer:
  "deltaInv zm st \<Longrightarrow>
     deltaInv zm (foldl (\<lambda>st zone. foldl (adjacencyStep zm now zone) st (adjacentZoneIds zone))
        st zones)"
proof (induction zones arbitrary: st)
  case Nil
  then show ?case by simp
next
  case (Cons zone zones)
  from Cons.prems
  have "deltaInv zm (foldl (adjacencyStep zm now zone) st (adjacentZoneIds zone))"
    by (rule deltaInv_inner)
  from Cons.IH [OF this] show ?case by simp
qed

lemma dom_zoneMapOf: "dom (zoneMapOf zones) = zoneId ` set zones"
  by (auto simp: zoneMapOf_def dom_map_of_conv_image_fst image_iff)

lemma zoneDeltas_inv:
  "distinct (map deltaKey (zoneDeltas zones now)) \<and>
   zoneBId ` set (zoneDeltas zones now) \<subseteq> zoneId ` set zones"
proof -
  have "deltaInv (zoneMapOf zones) ([], {})" by (simp add: deltaInv_def)
  from deltaInv_outer [OF this, of now zones] show ?thesis
    by (simp add: deltaInv_def zoneDeltas_def dom_zoneMapOf)
qed

lemma distinct_same_key:
  "distinct (map f xs) \<Longrightarrow> \<forall>x \<in> set xs. f x = k \<Longrightarrow> length xs \<le> 1"
proof (cases xs)
  case Nil
  then show ?thesis by simp
next
  case (Cons x ys)
  assume d: "distinct (map f xs)" and k: "\<forall>x \<in> set xs. f x = k"
  show ?thesis
  proof (cases ys)
    case Nil
    with Cons show ?thesis by simp
  next
    case (Cons y zs)
    with \<open>xs = x # ys\<close> d k have False by auto
    then show ?thesis ..
  qed
qed

text \<open>
  C7. Among the deltas that \<open>analyzeZones\<close> returns, at most one entry joins any two
  zone identifiers \<open>a\<close> and \<open>b\<close>, in either order, whatever the zone list and its
  order; and no entry is produced for an adjacent identifier that no zone of the list
  has (the function is total: it returns a result and raises no error).
\<close>

theorem analyzeZones_deltas_deduplicated:
  "length (filter (\<lambda>d. (zoneAId d = a \<and> zoneBId d = b) \<or> (zoneAId d = b \<and> zoneBId d = a))
      (deltas (analyzeZones zones weather thermalResistances now))) \<le> 1 \<and>
   (\<forall>adjId. adjId \<notin> zoneId ` set zones \<longrightarrow>
      filter (\<lambda>d. zoneBId d = adjId)
        (deltas (analyzeZones zones weather thermalResistances now)) = [])"
proof -
  let ?P = "\<lambda>d. (zoneAId d = a \<and> zoneBId d = b) \<or> (zoneAId d = b \<and> zoneBId d = a)"
  have ds: "deltas (analyzeZones zones weather thermalResistances now) = zoneDeltas zones now"
    by (simp add: analyzeZones_def Let_def)
  from zoneDeltas_inv [of zones now]
  have dist: "distinct (map deltaKey (zoneDeltas zones now))"
    and known: "zoneBId ` set (zoneDeltas zones now) \<subseteq> zoneId ` set zones"
    by simp_all
  from dist have "distinct (map deltaKey (filter ?P (zoneDeltas zones now)))"
    by (rule distinct_map_filter)
  moreover have "\<forall>d \<in> set (filter ?P (zoneDeltas zones now)). deltaKey d = pairKey a b"
    using pairKey_commute [of a b] by (auto simp: deltaKey_def)
  ultimately have one: "length (filter ?P (zoneDeltas zones now)) \<le> 1"
    by (rule distinct_same_key)
  from known have "\<forall>adjId. adjId \<notin> zoneId ` set zones \<longrightarrow>
      filter (\<lambda>d. zoneBId d = adjId) (zoneDeltas zones now) = []"
    by (auto simp: filter_empty_conv)
  with one show ?thesis unfolding ds by blast
qed

lemma adjacentZoneIds_zoneAt: "adjacentZoneIds (zoneAt zid adj t) = adj"
  by (simp add: zoneAt_def mkZone_def)

lemma pairKey_examples:
  "pairKey ''A'' ''B'' = ''A::B''" "pairKey ''B'' ''A'' = ''A::B''"
  "pairKey ''A'' ''ghost'' = ''A::ghost''"
  by (simp_all add: pairKey_def less_char_def)

lemma zoneMapOf_example:
  "zoneMapOf [zoneAt ''A'' [''B'', ''ghost''] 70, zoneAt ''B'' [''A''] 68]
     = [''A'' \<mapsto> zoneAt ''A'' [''B'', ''ghost''] 70, ''B'' \<mapsto> zoneAt ''B'' [''A''] 68]"
  by (auto simp: zoneMapOf_def zoneId_zoneAt)

lemma calcZoneDelta_example_AB:
  "calcZoneDelta (zoneAt ''A'' [''B'', ''ghost''] 70) (zoneAt ''B'' [''A''] 68) 0
     = Some \<lparr>deltaF = Finite 2, absF = Finite 2, warmer = ''A''\<rparr>"
  by (simp add: calcZoneDelta_def currentTempF_zoneAt zoneId_zoneAt roundTo_def jsSub_def
      Let_def fl_literal fl_parts)

lemma zoneDeltas_example:
  "zoneDeltas [zoneAt ''A'' [''B'', ''ghost''] 70, zoneAt ''B'' [''A''] 68] 0
     = [\<lparr>zoneAId = ''A'', zoneBId = ''B'', zoneAName = ''A'', zoneBName = ''B'',
         delta = Some \<lparr>deltaF = Finite 2, absF = Finite 2, warmer = ''A''\<rparr>\<rparr>]"
  by (simp add: zoneDeltas_def zoneMapOf_example adjacencyStep_def Let_def pairKey_examples
      zoneId_zoneAt name_zoneAt adjacentZoneIds_zoneAt calcZoneDelta_example_AB)

theorem analyzeZones_deltas_deduplicated_witness:
  "''ghost'' \<notin> zoneId ` set [zoneAt ''A'' [''B'', ''ghost''] 70, zoneAt ''B'' [''A''] 68] \<and>
   filter (\<lambda>d. zoneBId d = ''ghost'')
     (deltas (analyzeZones [zoneAt ''A'' [''B'', ''ghost''] 70, zoneAt ''B'' [''A''] 68]
        None Map.empty 0)) = [] \<and>
   deltas (analyzeZones [zoneAt ''A'' [''B'', ''ghost''] 70, zoneAt ''B'' [''A''] 68]
        None Map.empty 0)
     = [\<lparr>zoneAId = ''A'', zoneBId = ''B'', zoneAName = ''A'', zoneBName = ''B'',
         delta = Some \<lparr>deltaF = Finite 2, absF = Finite 2, warmer = ''A''\<rparr>\<rparr>]"
proof -
  have g: "''ghost'' \<notin> zoneId ` set [zoneAt ''A'' [''B'', ''ghost''] 70, zoneAt ''B'' [''A''] 68]"
    by (simp add: zoneId_zoneAt)
  have e: "deltas (analyzeZones [zoneAt ''A'' [''B'', ''ghost''] 70, zoneAt ''B'' [''A''] 68]
        None Map.empty 0)
     = [\<lparr>zoneAId = ''A'', zoneBId = ''B'', zoneAName = ''A'', zoneBName = ''B'',
         delta = Some \<lparr>deltaF = Finite 2, absF = Finite 2, warmer = ''A''\<rparr>\<rparr>]"
    by (simp add: analyzeZones_def Let_def zoneDeltas_example)
  from analyzeZones_deltas_deduplicated
    [of "''A''" "''B''" "[zoneAt ''A'' [''B'', ''ghost''] 70, zoneAt ''B'' [''A''] 68]"
        None Map.empty 0] g
  have "filter (\<lambda>d. zoneBId d = ''ghost'')
     (deltas (analyzeZones [zoneAt ''A'' [''B'', ''ghost''] 70, zoneAt ''B'' [''A''] 68]
        None Map.empty 0)) = []"
    by blast
  with g e show ?thesis by blast
qed

section \<open>Bucketed time series\<close>

lemma bucketsInv_push:
  assumes "bucketsInv bm rs buckets"
  shows "bucketsInv bm (rs @ [r]) (bucketPush bm buckets r)"
proof -
  let ?key = "bucketKey bm r"
  let ?b = "case map_of buckets ?key of
              None \<Rightarrow> \<lparr>temps = [], bucketTimestamp = ?key + bm div 2\<rparr>
            | Some b \<Rightarrow> b"
  let ?b' = "?b\<lparr>temps := temps ?b @ [tempF r]\<rparr>"
  have push: "bucketPush bm buckets r = AList.update ?key ?b' buckets"
    by (simp add: bucketPush_def Let_def)
  from assms have d: "distinct (map fst buckets)"
    and present: "\<forall>x \<in> set rs. map_of buckets (bucketKey bm x) \<noteq> None"
    and content: "\<And>k b. map_of buckets k = Some b \<Longrightarrow>
        temps b = map tempF (filter (\<lambda>x. bucketKey bm x = k) rs) \<and>
        bucketTimestamp b = k + bm div 2"
    by (auto simp: bucketsInv_def)
  have m: "map_of (AList.update ?key ?b' buckets) = (map_of buckets)(?key \<mapsto> ?b')"
    by (rule AList.update_conv')
  have d': "distinct (map fst (AList.update ?key ?b' buckets))"
    using d by (rule AList.distinct_update)
  have present': "\<forall>x \<in> set (rs @ [r]). map_of (AList.update ?key ?b' buckets) (bucketKey bm x) \<noteq> None"
    using present unfolding m by auto
  have old: "temps ?b = map tempF (filter (\<lambda>x. bucketKey bm x = ?key) rs) \<and>
      bucketTimestamp ?b = ?key + bm div 2"
  proof (cases "map_of buckets ?key")
    case None
    with present have "\<forall>x \<in> set rs. bucketKey bm x \<noteq> ?key" by metis
    then have "filter (\<lambda>x. bucketKey bm x = ?key) rs = []" by (simp add: filter_empty_conv)
    with None show ?thesis by simp
  next
    case (Some b)
    with content [OF Some] show ?thesis by simp
  qed
  have content': "temps b = map tempF (filter (\<lambda>x. bucketKey bm x = k) (rs @ [r])) \<and>
        bucketTimestamp b = k + bm div 2"
    if "map_of (AList.update ?key ?b' buckets) k = Some b" for k b
  proof (cases "k = ?key")
    case True
    with that have "b = ?b'" unfolding m by simp
    with old True show ?thesis by simp
  next
    case False
    with that have "map_of buckets k = Some b" unfolding m by simp
    from content [OF this] False show ?thesis by auto
  qed
  show ?thesis
    unfolding push bucketsInv_def using d' present' content' by blast
qed

lemma bucketsInv_foldl: "bucketsInv bm rs (foldl (bucketPush bm) [] rs)"
proof (induction rs rule: rev_induct)
  case Nil
  show ?case by (simp add: bucketsInv_def)
next
  case (snoc r rs)
  from bucketsInv_push [OF snoc.IH, of r] show ?case by simp
qed

text \<open>
  C10. For a non-zero bucket width, every point of \<open>Zone.getTimeSeries\<close> reports as
  \<open>sensorCount\<close> the number of in-window readings, over all sensors of the zone, whose
  bucket is the one the point stands for (identified by its midpoint): readings are
  counted, not sensors.
\<close>

theorem getTimeSeries_sensorCount_counts_readings:
  assumes "bucketMinutes \<noteq> 0"
  shows "\<forall>p \<in> set (getTimeSeries z hours bucketMinutes now).
     ptSensorCount p =
       length (filter (\<lambda>r. bucketKey (bucketMinutes * 60000) r + bucketMinutes * 30000
                            = ptTimestamp p)
                 (allReadingsInWindow z hours now))"
proof
  fix p assume p: "p \<in> set (getTimeSeries z hours bucketMinutes now)"
  let ?rs = "allReadingsInWindow z hours now"
  let ?bm = "bucketMinutes * 60000"
  let ?buckets = "foldl (bucketPush ?bm) [] ?rs"
  from p have "p \<in> set (map (\<lambda>kb. bucketPoint (snd kb)) ?buckets)"
    by (auto simp: getTimeSeries_def Let_def split: if_splits)
  then obtain k b where kb: "(k, b) \<in> set ?buckets" and pb: "p = bucketPoint b" by auto
  have inv: "bucketsInv ?bm ?rs ?buckets" by (rule bucketsInv_foldl)
  then have "distinct (map fst ?buckets)" by (simp add: bucketsInv_def)
  with kb have "map_of ?buckets k = Some b" by simp
  with inv have t: "temps b = map tempF (filter (\<lambda>r. bucketKey ?bm r = k) ?rs)"
    and ts: "bucketTimestamp b = k + ?bm div 2"
    by (auto simp: bucketsInv_def)
  have half: "?bm div 2 = bucketMinutes * 30000" by simp
  from pb ts half have "ptTimestamp p = k + bucketMinutes * 30000"
    by (simp add: bucketPoint_def)
  moreover from pb t have "ptSensorCount p = length (filter (\<lambda>r. bucketKey ?bm r = k) ?rs)"
    by (simp add: bucketPoint_def)
  ultimately show "ptSensorCount p =
       length (filter (\<lambda>r. bucketKey ?bm r + bucketMinutes * 30000 = ptTimestamp p) ?rs)"
    by simp
qed

lemma getTimeSeries_example:
  "getTimeSeries (mkZone ''den'' [] [mkSensor ''s1'' [mkReading ''s1'' 0 70, mkReading ''s1'' 60000 71]])
     1 5 60000
   = [\<lparr>ptTimestamp = 150000, ptTempF = 141 / 2, ptSensorCount = 2\<rparr>]"
  by (simp add: getTimeSeries_def allReadingsInWindow_def readingsInWindow_def mkZone_def
      mkSensor_def mkReading_def bucketPush_def bucketKey_def bucketPoint_def Let_def)

theorem getTimeSeries_sensorCount_counts_readings_witness:
  "(5 :: int) \<noteq> 0 \<and>
   getTimeSeries (mkZone ''den'' [] [mkSensor ''s1'' [mkReading ''s1'' 0 70, mkReading ''s1'' 60000 71]])
     1 5 60000
   = [\<lparr>ptTimestamp = 150000, ptTempF = 141 / 2, ptSensorCount = 2\<rparr>] \<and>
   length (filter (\<lambda>r. bucketKey (5 * 60000) r + 5 * 30000 = 150000)
     (allReadingsInWindow
        (mkZone ''den'' [] [mkSensor ''s1'' [mkReading ''s1'' 0 70, mkReading ''s1'' 60000 71]])
        1 60000)) = 2"
proof -
  have h: "(5 :: int) \<noteq> 0" by simp
  from getTimeSeries_sensorCount_counts_readings [OF h,
      of "mkZone ''den'' [] [mkSensor ''s1'' [mkReading ''s1'' 0 70, mkReading ''s1'' 60000 71]]"
         1 60000]
    getTimeSeries_example
  have "length (filter (\<lambda>r. bucketKey (5 * 60000) r + 5 * 30000 = 150000)
     (allReadingsInWindow
        (mkZone ''den'' [] [mkSensor ''s1'' [mkReading ''s1'' 0 70, mkReading ''s1'' 60000 71]])
        1 60000)) = 2"
    by simp
  with h getTimeSeries_example show ?thesis by blast
qed

end
